theory Spec2Isabelle
  imports Complex_Main
begin

section \<open>Data model\<close>

text \<open>
  Primary keys are UUIDs in the source; they are modelled as natural numbers. Dates are
  milliseconds since the epoch (what \<^verbatim>\<open>Date.now()\<close> returns). The store is PostgreSQL
  (start.sh; the order search uses \<^verbatim>\<open>iLike\<close>).
\<close>

type_synonym uuid = nat
type_synonym date = int

text \<open>An HTTP error response: the status code and the \<^verbatim>\<open>message\<close> of the JSON body.\<close>

type_synonym http_error = "nat \<times> string"

text \<open>
  A call into the ORM either returns or throws. Every route wraps its body in
  \<^verbatim>\<open>try/catch\<close> and answers what is thrown with status 500; what was written before the
  throw stays written, since no route opens a transaction.
\<close>

datatype 'a thrown = Throws | Returns 'a

subsection \<open>Decimal columns\<close>

text \<open>
  A \<^verbatim>\<open>DECIMAL(p,2)\<close> column holds a number with two decimal places: it is modelled by the
  integer number of hundredths. The numbers of a request body are exact rationals (the
  validator \<^verbatim>\<open>isDecimal\<close> admits any number of decimal places). Writing a number into
  the column rounds it to two places, half away from zero, and raises
  \<^verbatim>\<open>numeric field overflow\<close> when the rounded value has more than \<open>p\<close> digits.
\<close>

type_synonym decimal2 = int

definition decimal_value :: "decimal2 \<Rightarrow> rat" where
  "decimal_value c = of_int c / 100"

definition round_half_away :: "rat \<Rightarrow> int" where
  "round_half_away x = (if 0 \<le> x then \<lfloor>x + 1 / 2\<rfloor> else - \<lfloor>- x + 1 / 2\<rfloor>)"

definition to_hundredths :: "rat \<Rightarrow> decimal2" where
  "to_hundredths x = round_half_away (x * 100)"

definition fits :: "nat \<Rightarrow> rat \<Rightarrow> bool" where
  "fits p x \<longleftrightarrow> \<bar>to_hundredths x\<bar> < 10 ^ p"

definition fits_opt :: "nat \<Rightarrow> rat option \<Rightarrow> bool" where
  "fits_opt p x = (case x of None \<Rightarrow> True | Some v \<Rightarrow> fits p v)"

subsection \<open>Users\<close>

text \<open>
  Modelled from the spec: the User model (models/User.js) is not among the sources. The
  spec gives the role as one of admin, dentist, supplier, an active flag and a preferred
  display language; the routes read \<^verbatim>\<open>id\<close>, \<^verbatim>\<open>role\<close>, \<^verbatim>\<open>isActive\<close> and
  \<^verbatim>\<open>preferredLanguage\<close>.
\<close>

datatype role = admin | dentist | supplier

datatype language = fr | en | zh

record user =
  u_id :: uuid
  u_role :: role
  u_isActive :: bool
  u_preferredLanguage :: "language option"

fun role_label :: "role \<Rightarrow> string" where
  "role_label admin = ''admin''"
| "role_label dentist = ''dentist''"
| "role_label supplier = ''supplier''"

subsection \<open>Orders (models/Order.js)\<close>

datatype order_status =
  quote_asked | quote_sent | quote_validated | in_production | in_shipping | delivered | cancelled

fun status_label :: "order_status \<Rightarrow> string" where
  "status_label quote_asked = ''quote_asked''"
| "status_label quote_sent = ''quote_sent''"
| "status_label quote_validated = ''quote_validated''"
| "status_label in_production = ''in_production''"
| "status_label in_shipping = ''in_shipping''"
| "status_label delivered = ''delivered''"
| "status_label cancelled = ''cancelled''"

datatype gender = male | female | other_gender

datatype prosthesis_type =
  pt_crown | pt_bridge | pt_implant | pt_denture | pt_veneer | pt_inlay | pt_onlay | pt_other

datatype order_material =
  om_ceramic | om_porcelain | om_metal | om_zirconia | om_composite | om_acrylic | om_other

datatype order_urgency = low | medium | high | urgent

text \<open>
  The columns of the \<^verbatim>\<open>orders\<close> table that the modelled routes read or write
  (\<^verbatim>\<open>orderNumber\<close> and \<^verbatim>\<open>patientInfo\<close> are touched by none of them). A nullable column is
  an option. \<^verbatim>\<open>originalQuote\<close> and \<^verbatim>\<open>adjustedQuote\<close> are \<^verbatim>\<open>DECIMAL(10,2)\<close>,
  \<^verbatim>\<open>pricingFactor\<close> is \<^verbatim>\<open>DECIMAL(5,2)\<close>.
\<close>

record order =
  o_id :: uuid
  o_dentistId :: uuid
  o_supplierId :: uuid
  o_status :: order_status
  o_title :: string
  o_description :: "string option"
  o_patientName :: "string option"
  o_patientAge :: "int option"
  o_patientGender :: "gender option"
  o_toothNumbers :: "int list"
  o_prosthesisType :: "prosthesis_type option"
  o_material :: "order_material option"
  o_color :: "string option"
  o_urgency :: "order_urgency option"
  o_expectedDelivery :: "date option"
  o_actualDelivery :: "date option"
  o_originalQuote :: "decimal2 option"
  o_adjustedQuote :: "decimal2 option"
  o_pricingFactor :: "decimal2 option"
  o_notes :: "string option"
  o_trackingNumber :: "string option"
  o_shippingCompany :: "string option"

subsection \<open>Chat messages (models/ChatMessage.js)\<close>

record chat_message =
  m_id :: uuid
  m_orderId :: uuid
  m_userId :: uuid
  m_message :: string
  m_originalLanguage :: language
  m_translatedMessage :: "string option"
  m_targetLanguage :: "language option"
  m_messageType :: string
  m_isRead :: bool
  m_readAt :: "date option"
  m_isSystemMessage :: bool
  m_systemAction :: "string option"
  m_translationStatus :: string

text \<open>
  The values the routes hand to \<^verbatim>\<open>ChatMessage.create\<close> for a system notice: the message
  type is always \<^verbatim>\<open>'system'\<close>; the columns the call leaves out take the model's defaults
  (\<^verbatim>\<open>isRead: false\<close>, translation pending).
\<close>

definition system_message ::
  "uuid \<Rightarrow> uuid \<Rightarrow> user \<Rightarrow> string \<Rightarrow> string \<Rightarrow> chat_message" where
  "system_message new_id orderId u text action =
     \<lparr> m_id = new_id, m_orderId = orderId, m_userId = u_id u, m_message = text,
       m_originalLanguage = (case u_preferredLanguage u of None \<Rightarrow> fr | Some l \<Rightarrow> l),
       m_translatedMessage = None, m_targetLanguage = None,
       m_messageType = ''system'', m_isRead = False, m_readAt = None,
       m_isSystemMessage = True, m_systemAction = Some action,
       m_translationStatus = ''pending'' \<rparr>"

text \<open>
  \<^verbatim>\<open>messageType\<close> and \<^verbatim>\<open>systemAction\<close> are ENUM columns. The insert of a value that is
  not a label of the column's type is refused by the store (\<^verbatim>\<open>invalid input value for
  enum\<close>), and \<^verbatim>\<open>ChatMessage.create\<close> throws.
\<close>

definition messageType_labels :: "string list" where
  "messageType_labels = [''text'', ''file'', ''image'', ''quote_update'', ''status_change'']"

definition systemAction_labels :: "string list" where
  "systemAction_labels =
     [''order_created'', ''quote_sent'', ''quote_accepted'', ''quote_rejected'',
      ''status_changed'', ''file_uploaded'', ''user_joined'', ''user_left'']"

definition ChatMessage_create :: "chat_message \<Rightarrow> chat_message thrown" where
  "ChatMessage_create m =
     (if m_messageType m \<in> set messageType_labels \<and>
         (case m_systemAction m of None \<Rightarrow> True | Some a \<Rightarrow> a \<in> set systemAction_labels)
      then Returns m else Throws)"

subsection \<open>Quotes (models/Quote.js)\<close>

datatype quote_status = draft | sent | accepted | rejected | modified

text \<open>
  The attributes of a quote, without \<^verbatim>\<open>specifications\<close> (free-form JSON) and
  \<^verbatim>\<open>parentQuoteId\<close> (written by no route). The type of the decimal attributes is a
  parameter: a row of the \<^verbatim>\<open>quotes\<close> table holds hundredths (\<^verbatim>\<open>DECIMAL(10,2)\<close>, for
  \<^verbatim>\<open>pricingFactor\<close> \<^verbatim>\<open>DECIMAL(5,2)\<close>), an instance in memory holds the numbers it was
  given. \<^verbatim>\<open>totalPrice\<close> is \<^verbatim>\<open>allowNull: false\<close>: every stored row has one; an instance
  built from values without one has none.
\<close>

record 'n quote =
  q_id :: uuid
  q_orderId :: uuid
  q_supplierId :: uuid
  q_status :: quote_status
  q_basePrice :: 'n
  q_materialCost :: "'n option"
  q_laborCost :: "'n option"
  q_shippingCost :: "'n option"
  q_taxAmount :: "'n option"
  q_totalPrice :: "'n option"
  q_adjustedPrice :: "'n option"
  q_pricingFactor :: "'n option"
  q_validUntil :: "date option"
  q_productionTime :: "int option"
  q_shippingTime :: "int option"
  q_notes :: "string option"
  q_revisionNumber :: int
  q_acceptedAt :: "date option"
  q_acceptedBy :: "uuid option"
  q_rejectionReason :: "string option"

type_synonym quote_row = "decimal2 quote"

subsection \<open>Pricing factors (models/PricingFactor.js)\<close>

text \<open>The three ENUM columns, each with its labels in the order of the declaration.\<close>

datatype pf_category =
  crown | bridge | implant | denture | veneer | inlay | onlay | general_category

datatype pf_material =
  ceramic | porcelain | metal | zirconia | composite | acrylic | general_material

datatype pf_urgency = pf_low | pf_medium | pf_high | pf_urgent | general_urgency

text \<open>
  \<^verbatim>\<open>factor\<close> is \<^verbatim>\<open>DECIMAL(5,2)\<close>, \<^verbatim>\<open>minOrderValue\<close> and \<^verbatim>\<open>maxOrderValue\<close> are
  \<^verbatim>\<open>DECIMAL(10,2)\<close>.
\<close>

record pricing_factor =
  pf_id :: uuid
  pf_supplierId :: "uuid option"
  pf_isDefault :: bool
  pf_factor :: decimal2
  pf_validFrom :: date
  pf_validUntil :: "date option"
  pf_category :: "pf_category option"
  pf_material :: "pf_material option"
  pf_urgency :: "pf_urgency option"
  pf_minOrderValue :: "decimal2 option"
  pf_maxOrderValue :: "decimal2 option"
  pf_isActive :: bool
  pf_createdAt :: date

subsection \<open>The database\<close>

text \<open>
  One list of rows per table, in the order the store returns them, and the source of
  fresh primary keys (\<^verbatim>\<open>UUIDV4\<close> in the source).
\<close>

record db =
  db_users :: "user list"
  db_orders :: "order list"
  db_quotes :: "quote_row list"
  db_messages :: "chat_message list"
  db_pricingFactors :: "pricing_factor list"
  db_next_id :: uuid

text \<open>Writing an instance back (\<^verbatim>\<open>instance.update\<close>, \<^verbatim>\<open>instance.save\<close>): the row with its key is replaced.\<close>

definition save_row :: "('a \<Rightarrow> uuid) \<Rightarrow> 'a \<Rightarrow> 'a list \<Rightarrow> 'a list" where
  "save_row pk r rows = map (\<lambda>x. if pk x = pk r then r else x) rows"

section \<open>Identity and access (middleware/auth.js)\<close>

text \<open>
  The bearer credential after \<^verbatim>\<open>jwt.verify\<close>: absent, rejected as malformed, rejected as
  expired, or decoded to a user id.
\<close>

datatype bearer = NoToken | InvalidToken | ExpiredToken | TokenFor uuid

text \<open>
  \<^verbatim>\<open>Model.findByPk\<close>: the row with that primary key, or null. Called with
  \<^verbatim>\<open>undefined\<close> (here \<open>None\<close>) it resolves to null without a query.
\<close>

definition findByPk :: "('a \<Rightarrow> uuid) \<Rightarrow> 'a list \<Rightarrow> uuid option \<Rightarrow> 'a option" where
  "findByPk pk rows k =
     (case k of None \<Rightarrow> None | Some i \<Rightarrow> find (\<lambda>r. pk r = i) rows)"

fun authenticateToken :: "user list \<Rightarrow> bearer \<Rightarrow> http_error + user" where
  "authenticateToken users NoToken = Inl (401, ''Access token required'')"
| "authenticateToken users InvalidToken = Inl (401, ''Invalid token'')"
| "authenticateToken users ExpiredToken = Inl (401, ''Token expired'')"
| "authenticateToken users (TokenFor uid) =
     (case findByPk u_id users (Some uid) of
        None \<Rightarrow> Inl (401, ''Invalid or inactive user'')
      | Some u \<Rightarrow>
          if \<not> u_isActive u then Inl (401, ''Invalid or inactive user'') else Inr u)"

fun join_or :: "string list \<Rightarrow> string" where
  "join_or [] = []"
| "join_or [x] = x"
| "join_or (x # xs) = x @ '' or '' @ join_or xs"

definition requireRole :: "role list \<Rightarrow> user \<Rightarrow> http_error + unit" where
  "requireRole roles u =
     (if u_role u \<notin> set roles
      then Inl (403, ''Access denied. Required role: '' @ join_or (map role_label roles))
      else Inr ())"

definition requireAdmin :: "user \<Rightarrow> http_error + unit" where
  "requireAdmin = requireRole [admin]"

definition requireDentistOrAdmin :: "user \<Rightarrow> http_error + unit" where
  "requireDentistOrAdmin = requireRole [dentist, admin]"

definition requireSupplierOrAdmin :: "user \<Rightarrow> http_error + unit" where
  "requireSupplierOrAdmin = requireRole [supplier, admin]"

text \<open>
  \<^verbatim>\<open>req.params\<close> maps the names of the route pattern's placeholders to the path segments.
  \<^verbatim>\<open>canAccessOrder\<close> destructures \<^verbatim>\<open>orderId\<close> from it; on success it binds
  \<^verbatim>\<open>req.order\<close>, which is the order it returns here.
\<close>

type_synonym params = "string \<Rightarrow> uuid option"

definition canAccessOrder :: "order list \<Rightarrow> params \<Rightarrow> user \<Rightarrow> http_error + order" where
  "canAccessOrder orders ps u =
     (case findByPk o_id orders (ps ''orderId'') of
        None \<Rightarrow> Inl (404, ''Order not found'')
      | Some ord \<Rightarrow>
          if u_role u = admin then Inr ord
          else if u_role u = dentist \<and> o_dentistId ord = u_id u then Inr ord
          else if u_role u = supplier \<and> o_supplierId ord = u_id u then Inr ord
          else Inl (403, ''Access denied to this order''))"

section \<open>Pricing factor resolver (PricingFactor.getApplicableFactor)\<close>

fun prosthesis_label :: "prosthesis_type \<Rightarrow> string" where
  "prosthesis_label pt_crown = ''crown''"
| "prosthesis_label pt_bridge = ''bridge''"
| "prosthesis_label pt_implant = ''implant''"
| "prosthesis_label pt_denture = ''denture''"
| "prosthesis_label pt_veneer = ''veneer''"
| "prosthesis_label pt_inlay = ''inlay''"
| "prosthesis_label pt_onlay = ''onlay''"
| "prosthesis_label pt_other = ''other''"

fun order_material_label :: "order_material \<Rightarrow> string" where
  "order_material_label om_ceramic = ''ceramic''"
| "order_material_label om_porcelain = ''porcelain''"
| "order_material_label om_metal = ''metal''"
| "order_material_label om_zirconia = ''zirconia''"
| "order_material_label om_composite = ''composite''"
| "order_material_label om_acrylic = ''acrylic''"
| "order_material_label om_other = ''other''"

fun order_urgency_label :: "order_urgency \<Rightarrow> string" where
  "order_urgency_label low = ''low''"
| "order_urgency_label medium = ''medium''"
| "order_urgency_label high = ''high''"
| "order_urgency_label urgent = ''urgent''"

fun category_label :: "pf_category \<Rightarrow> string" where
  "category_label crown = ''crown''"
| "category_label bridge = ''bridge''"
| "category_label implant = ''implant''"
| "category_label denture = ''denture''"
| "category_label veneer = ''veneer''"
| "category_label inlay = ''inlay''"
| "category_label onlay = ''onlay''"
| "category_label general_category = ''general''"

fun material_label :: "pf_material \<Rightarrow> string" where
  "material_label ceramic = ''ceramic''"
| "material_label porcelain = ''porcelain''"
| "material_label metal = ''metal''"
| "material_label zirconia = ''zirconia''"
| "material_label composite = ''composite''"
| "material_label acrylic = ''acrylic''"
| "material_label general_material = ''general''"

fun urgency_label :: "pf_urgency \<Rightarrow> string" where
  "urgency_label pf_low = ''low''"
| "urgency_label pf_medium = ''medium''"
| "urgency_label pf_high = ''high''"
| "urgency_label pf_urgent = ''urgent''"
| "urgency_label general_urgency = ''general''"

text \<open>
  The store is PostgreSQL (start.sh; the order search uses \<^verbatim>\<open>iLike\<close>). There an ENUM column
  sorts by the position of the label in the type's declaration, and NULL sorts above every
  value.
\<close>

fun category_rank :: "pf_category option \<Rightarrow> nat" where
  "category_rank (Some crown) = 0"
| "category_rank (Some bridge) = 1"
| "category_rank (Some implant) = 2"
| "category_rank (Some denture) = 3"
| "category_rank (Some veneer) = 4"
| "category_rank (Some inlay) = 5"
| "category_rank (Some onlay) = 6"
| "category_rank (Some general_category) = 7"
| "category_rank None = 8"

fun material_rank :: "pf_material option \<Rightarrow> nat" where
  "material_rank (Some ceramic) = 0"
| "material_rank (Some porcelain) = 1"
| "material_rank (Some metal) = 2"
| "material_rank (Some zirconia) = 3"
| "material_rank (Some composite) = 4"
| "material_rank (Some acrylic) = 5"
| "material_rank (Some general_material) = 6"
| "material_rank None = 7"

fun urgency_rank :: "pf_urgency option \<Rightarrow> nat" where
  "urgency_rank (Some pf_low) = 0"
| "urgency_rank (Some pf_medium) = 1"
| "urgency_rank (Some pf_high) = 2"
| "urgency_rank (Some pf_urgent) = 3"
| "urgency_rank (Some general_urgency) = 4"
| "urgency_rank None = 5"

record order_data =
  od_supplierId :: uuid
  od_category :: "prosthesis_type option"
  od_material :: "order_material option"
  od_urgency :: "order_urgency option"
  od_orderValue :: rat

text \<open>
  \<^verbatim>\<open>column: [value, 'general']\<close>, that is \<^verbatim>\<open>column IN (value, 'general')\<close>; a NULL column
  is in no list, and a NULL value equals no column.
\<close>

definition in_values :: "string option \<Rightarrow> string option \<Rightarrow> bool" where
  "in_values column v =
     (case column of None \<Rightarrow> False | Some c \<Rightarrow> Some c = v \<or> c = ''general'')"

text \<open>
  The store types each literal of the list as the ENUM of the column it is compared with,
  before it looks at any row, and raises \<^verbatim>\<open>invalid input value for enum\<close> for a literal
  that is no label of that type. An order's \<^verbatim>\<open>other\<close> (prosthesis type or material) is
  a label of the order's ENUM and of neither ENUM of the rules: for such an order the
  query throws.
\<close>

definition category_labels :: "string list" where
  "category_labels =
     [''crown'', ''bridge'', ''implant'', ''denture'', ''veneer'', ''inlay'', ''onlay'', ''general'']"

definition material_labels :: "string list" where
  "material_labels =
     [''ceramic'', ''porcelain'', ''metal'', ''zirconia'', ''composite'', ''acrylic'', ''general'']"

definition urgency_labels :: "string list" where
  "urgency_labels = [''low'', ''medium'', ''high'', ''urgent'', ''general'']"

definition is_label :: "string list \<Rightarrow> string option \<Rightarrow> bool" where
  "is_label labels v = (case v of None \<Rightarrow> True | Some l \<Rightarrow> l \<in> set labels)"

definition literals_typed :: "order_data \<Rightarrow> bool" where
  "literals_typed od \<longleftrightarrow>
     is_label category_labels (map_option prosthesis_label (od_category od)) \<and>
     is_label material_labels (map_option order_material_label (od_material od)) \<and>
     is_label urgency_labels (map_option order_urgency_label (od_urgency od))"

text \<open>
  The conditions the two \<^verbatim>\<open>where\<close> clauses share. The bounds of the order value are
  compared as the numbers the columns hold.
\<close>

definition where_common :: "date \<Rightarrow> order_data \<Rightarrow> pricing_factor \<Rightarrow> bool" where
  "where_common now od r \<longleftrightarrow>
     pf_isActive r \<and>
     pf_validFrom r \<le> now \<and>
     (case pf_validUntil r of None \<Rightarrow> True | Some t \<Rightarrow> now \<le> t) \<and>
     in_values (map_option category_label (pf_category r))
               (map_option prosthesis_label (od_category od)) \<and>
     in_values (map_option material_label (pf_material r))
               (map_option order_material_label (od_material od)) \<and>
     in_values (map_option urgency_label (pf_urgency r))
               (map_option order_urgency_label (od_urgency od)) \<and>
     (case pf_minOrderValue r of None \<Rightarrow> True | Some v \<Rightarrow> decimal_value v \<le> od_orderValue od) \<and>
     (case pf_maxOrderValue r of None \<Rightarrow> True | Some v \<Rightarrow> od_orderValue od \<le> decimal_value v)"

text \<open>
  \<^verbatim>\<open>order: [['category','DESC'], ['material','DESC'], ['urgency','DESC'], ['createdAt','DESC']]\<close>:
  a row comes before another when it is larger in the first column where they differ.
\<close>

definition sorts_before :: "pricing_factor \<Rightarrow> pricing_factor \<Rightarrow> bool" where
  "sorts_before a b \<longleftrightarrow>
     category_rank (pf_category a) > category_rank (pf_category b) \<or>
     (category_rank (pf_category a) = category_rank (pf_category b) \<and>
      (material_rank (pf_material a) > material_rank (pf_material b) \<or>
       (material_rank (pf_material a) = material_rank (pf_material b) \<and>
        (urgency_rank (pf_urgency a) > urgency_rank (pf_urgency b) \<or>
         (urgency_rank (pf_urgency a) = urgency_rank (pf_urgency b) \<and>
          pf_createdAt a > pf_createdAt b)))))"

text \<open>
  \<^verbatim>\<open>findOne\<close> returns the first row of the sorted matches. Rows that agree on all four
  columns come back in the store's own order, here the order of the list.
\<close>

fun first_row :: "pricing_factor \<Rightarrow> pricing_factor list \<Rightarrow> pricing_factor" where
  "first_row best [] = best"
| "first_row best (r # rs) = first_row (if sorts_before r best then r else best) rs"

definition findOne :: "(pricing_factor \<Rightarrow> bool) \<Rightarrow> pricing_factor list \<Rightarrow> pricing_factor option" where
  "findOne wh rows = (case filter wh rows of [] \<Rightarrow> None | r # rs \<Rightarrow> Some (first_row r rs))"

definition getApplicableFactor ::
  "pricing_factor list \<Rightarrow> date \<Rightarrow> order_data \<Rightarrow> pricing_factor option thrown" where
  "getApplicableFactor rows now od =
     (if \<not> literals_typed od then Throws
      else
     (case findOne (\<lambda>r. pf_supplierId r = Some (od_supplierId od) \<and> where_common now od r) rows of
        Some factor \<Rightarrow> Returns (Some factor)
      | None \<Rightarrow> Returns (findOne (\<lambda>r. pf_isDefault r \<and> where_common now od r) rows)))"

section \<open>Quote hooks and persistence (models/Quote.js)\<close>

text \<open>
  An instance carries, beside its values, the names of the attributes changed since it
  was loaded or built. \<^verbatim>\<open>Model#changed(key)\<close> answers whether the attribute named
  \<^verbatim>\<open>key\<close> is among them; an array is the name of no attribute, so for an array the
  answer is false. Both hooks pass an array.
\<close>

datatype quote_field =
  F_status | F_basePrice | F_materialCost | F_laborCost | F_shippingCost | F_taxAmount
  | F_totalPrice | F_adjustedPrice | F_pricingFactor | F_validUntil | F_productionTime
  | F_shippingTime | F_notes | F_revisionNumber | F_acceptedAt | F_acceptedBy
  | F_rejectionReason

type_synonym quote_instance = "rat quote \<times> quote_field list"

datatype changed_key = Attribute quote_field | Array "quote_field list"

fun changed :: "changed_key \<Rightarrow> quote_instance \<Rightarrow> bool" where
  "changed (Attribute k) inst = (k \<in> set (snd inst))"
| "changed (Array ks) inst = False"

text \<open>\<^verbatim>\<open>parseFloat(x) || d\<close>: the value, or \<open>d\<close> when it is null (NaN) or zero.\<close>

definition parseFloat_or :: "rat option \<Rightarrow> rat \<Rightarrow> rat" where
  "parseFloat_or x d = (case x of None \<Rightarrow> d | Some v \<Rightarrow> if v = 0 then d else v)"

text \<open>An assignment through the attribute's setter marks it changed when the value differs.\<close>

definition set_totalPrice :: "rat \<Rightarrow> quote_instance \<Rightarrow> quote_instance" where
  "set_totalPrice v inst =
     (if q_totalPrice (fst inst) = Some v then inst
      else ((fst inst)\<lparr>q_totalPrice := Some v\<rparr>, F_totalPrice # snd inst))"

definition set_adjustedPrice :: "rat \<Rightarrow> quote_instance \<Rightarrow> quote_instance" where
  "set_adjustedPrice v inst =
     (if q_adjustedPrice (fst inst) = Some v then inst
      else ((fst inst)\<lparr>q_adjustedPrice := Some v\<rparr>, F_adjustedPrice # snd inst))"

text \<open>First \<^verbatim>\<open>beforeSave\<close> hook: calculate total price before save.\<close>

definition calculate_totalPrice :: "quote_instance \<Rightarrow> quote_instance" where
  "calculate_totalPrice inst =
     (if changed (Array [F_basePrice, F_materialCost, F_laborCost, F_shippingCost, F_taxAmount]) inst
      then
        let basePrice = parseFloat_or (Some (q_basePrice (fst inst))) 0;
            materialCost = parseFloat_or (q_materialCost (fst inst)) 0;
            laborCost = parseFloat_or (q_laborCost (fst inst)) 0;
            shippingCost = parseFloat_or (q_shippingCost (fst inst)) 0;
            taxAmount = parseFloat_or (q_taxAmount (fst inst)) 0
        in set_totalPrice (basePrice + materialCost + laborCost + shippingCost + taxAmount) inst
      else inst)"

text \<open>Second \<^verbatim>\<open>beforeSave\<close> hook: calculate adjusted price with pricing factor.\<close>

definition calculate_adjustedPrice :: "quote_instance \<Rightarrow> quote_instance" where
  "calculate_adjustedPrice inst =
     (if changed (Array [F_totalPrice, F_pricingFactor]) inst
      then
        let totalPrice = parseFloat_or (q_totalPrice (fst inst)) 0;
            factor = parseFloat_or (q_pricingFactor (fst inst)) 1
        in set_adjustedPrice (totalPrice * factor) inst
      else inst)"

text \<open>The hooks run in the order of their registration.\<close>

definition beforeSave :: "quote_instance \<Rightarrow> quote_instance" where
  "beforeSave inst = calculate_adjustedPrice (calculate_totalPrice inst)"

text \<open>
  Between a row and an instance. Loading a row gives each decimal attribute the number
  the column holds. Writing an instance rounds each decimal attribute into its column
  and throws when one of them does not fit; a value read from a row and not reassigned
  is written back as it was.
\<close>

definition convert :: "('a \<Rightarrow> 'b) \<Rightarrow> 'a quote \<Rightarrow> 'b quote" where
  "convert f q =
     \<lparr> q_id = q_id q, q_orderId = q_orderId q, q_supplierId = q_supplierId q,
       q_status = q_status q, q_basePrice = f (q_basePrice q),
       q_materialCost = map_option f (q_materialCost q),
       q_laborCost = map_option f (q_laborCost q),
       q_shippingCost = map_option f (q_shippingCost q),
       q_taxAmount = map_option f (q_taxAmount q),
       q_totalPrice = map_option f (q_totalPrice q),
       q_adjustedPrice = map_option f (q_adjustedPrice q),
       q_pricingFactor = map_option f (q_pricingFactor q),
       q_validUntil = q_validUntil q, q_productionTime = q_productionTime q,
       q_shippingTime = q_shippingTime q, q_notes = q_notes q,
       q_revisionNumber = q_revisionNumber q, q_acceptedAt = q_acceptedAt q,
       q_acceptedBy = q_acceptedBy q, q_rejectionReason = q_rejectionReason q \<rparr>"

definition row_values :: "quote_row \<Rightarrow> rat quote" where
  "row_values = convert decimal_value"

definition storable :: "rat quote \<Rightarrow> bool" where
  "storable q \<longleftrightarrow>
     fits 10 (q_basePrice q) \<and> fits_opt 10 (q_materialCost q) \<and> fits_opt 10 (q_laborCost q) \<and>
     fits_opt 10 (q_shippingCost q) \<and> fits_opt 10 (q_taxAmount q) \<and>
     fits_opt 10 (q_totalPrice q) \<and> fits_opt 10 (q_adjustedPrice q) \<and>
     fits_opt 5 (q_pricingFactor q)"

definition to_row :: "rat quote \<Rightarrow> quote_row thrown" where
  "to_row q = (if storable q then Returns (convert to_hundredths q) else Throws)"

text \<open>
  \<^verbatim>\<open>Quote.create(quoteData)\<close> as the create route calls it. \<^verbatim>\<open>quoteData\<close> has no
  \<^verbatim>\<open>totalPrice\<close>; the attributes it leaves out take the model's defaults
  (\<^verbatim>\<open>status: 'draft'\<close>, \<^verbatim>\<open>revisionNumber: 1\<close>), and \<^verbatim>\<open>totalPrice\<close> has none. Every
  attribute of \<^verbatim>\<open>quoteData\<close> counts as changed on the new instance.
\<close>

record quote_data =
  qd_orderId :: uuid
  qd_supplierId :: uuid
  qd_basePrice :: rat
  qd_materialCost :: rat
  qd_laborCost :: rat
  qd_shippingCost :: rat
  qd_taxAmount :: rat
  qd_productionTime :: "int option"
  qd_shippingTime :: "int option"
  qd_notes :: "string option"
  qd_pricingFactor :: rat
  qd_validUntil :: date

definition Quote_build :: "uuid \<Rightarrow> quote_data \<Rightarrow> quote_instance" where
  "Quote_build new_id d =
     (\<lparr> q_id = new_id, q_orderId = qd_orderId d, q_supplierId = qd_supplierId d,
        q_status = draft, q_basePrice = qd_basePrice d,
        q_materialCost = Some (qd_materialCost d), q_laborCost = Some (qd_laborCost d),
        q_shippingCost = Some (qd_shippingCost d), q_taxAmount = Some (qd_taxAmount d),
        q_totalPrice = None, q_adjustedPrice = None,
        q_pricingFactor = Some (qd_pricingFactor d), q_validUntil = Some (qd_validUntil d),
        q_productionTime = qd_productionTime d, q_shippingTime = qd_shippingTime d,
        q_notes = qd_notes d, q_revisionNumber = 1, q_acceptedAt = None,
        q_acceptedBy = None, q_rejectionReason = None \<rparr>,
      [F_basePrice, F_materialCost, F_laborCost, F_shippingCost, F_taxAmount,
       F_productionTime, F_shippingTime, F_notes, F_pricingFactor, F_validUntil])"

text \<open>
  Saving a new instance validates it first: an attribute declared \<^verbatim>\<open>allowNull: false\<close>
  that has no value is a validation error, and the save throws. Only then do the
  \<^verbatim>\<open>beforeSave\<close> hooks run, and the row is inserted.
\<close>

definition validate_new :: "quote_instance \<Rightarrow> bool" where
  "validate_new inst \<longleftrightarrow> q_totalPrice (fst inst) \<noteq> None"

definition Quote_create :: "uuid \<Rightarrow> quote_data \<Rightarrow> quote_row thrown" where
  "Quote_create new_id d =
     (let inst = Quote_build new_id d
      in if \<not> validate_new inst then Throws else to_row (fst (beforeSave inst)))"

text \<open>
  \<^verbatim>\<open>quote.update(values)\<close>: each entry of \<^verbatim>\<open>values\<close> goes through the setter, then the
  instance is saved, which runs the hooks and writes the row. The assignments are those
  the routes make; none of them names \<^verbatim>\<open>totalPrice\<close>, \<^verbatim>\<open>adjustedPrice\<close> or
  \<^verbatim>\<open>pricingFactor\<close>, and none assigns null to an attribute that must have a value.
\<close>

datatype quote_assign =
  Set_status quote_status
  | Set_basePrice rat
  | Set_materialCost rat
  | Set_laborCost rat
  | Set_shippingCost rat
  | Set_taxAmount rat
  | Set_productionTime int
  | Set_shippingTime int
  | Set_notes string
  | Set_revisionNumber int
  | Set_acceptedAt date
  | Set_acceptedBy uuid
  | Set_rejectionReason string

fun assign :: "quote_assign \<Rightarrow> quote_instance \<Rightarrow> quote_instance" where
  "assign (Set_status v) (q, ch) =
     (if q_status q = v then (q, ch) else (q\<lparr>q_status := v\<rparr>, F_status # ch))"
| "assign (Set_basePrice v) (q, ch) =
     (if q_basePrice q = v then (q, ch) else (q\<lparr>q_basePrice := v\<rparr>, F_basePrice # ch))"
| "assign (Set_materialCost v) (q, ch) =
     (if q_materialCost q = Some v then (q, ch)
      else (q\<lparr>q_materialCost := Some v\<rparr>, F_materialCost # ch))"
| "assign (Set_laborCost v) (q, ch) =
     (if q_laborCost q = Some v then (q, ch)
      else (q\<lparr>q_laborCost := Some v\<rparr>, F_laborCost # ch))"
| "assign (Set_shippingCost v) (q, ch) =
     (if q_shippingCost q = Some v then (q, ch)
      else (q\<lparr>q_shippingCost := Some v\<rparr>, F_shippingCost # ch))"
| "assign (Set_taxAmount v) (q, ch) =
     (if q_taxAmount q = Some v then (q, ch)
      else (q\<lparr>q_taxAmount := Some v\<rparr>, F_taxAmount # ch))"
| "assign (Set_productionTime v) (q, ch) =
     (if q_productionTime q = Some v then (q, ch)
      else (q\<lparr>q_productionTime := Some v\<rparr>, F_productionTime # ch))"
| "assign (Set_shippingTime v) (q, ch) =
     (if q_shippingTime q = Some v then (q, ch)
      else (q\<lparr>q_shippingTime := Some v\<rparr>, F_shippingTime # ch))"
| "assign (Set_notes v) (q, ch) =
     (if q_notes q = Some v then (q, ch) else (q\<lparr>q_notes := Some v\<rparr>, F_notes # ch))"
| "assign (Set_revisionNumber v) (q, ch) =
     (if q_revisionNumber q = v then (q, ch)
      else (q\<lparr>q_revisionNumber := v\<rparr>, F_revisionNumber # ch))"
| "assign (Set_acceptedAt v) (q, ch) =
     (if q_acceptedAt q = Some v then (q, ch)
      else (q\<lparr>q_acceptedAt := Some v\<rparr>, F_acceptedAt # ch))"
| "assign (Set_acceptedBy v) (q, ch) =
     (if q_acceptedBy q = Some v then (q, ch)
      else (q\<lparr>q_acceptedBy := Some v\<rparr>, F_acceptedBy # ch))"
| "assign (Set_rejectionReason v) (q, ch) =
     (if q_rejectionReason q = Some v then (q, ch)
      else (q\<lparr>q_rejectionReason := Some v\<rparr>, F_rejectionReason # ch))"

definition Quote_update :: "quote_row \<Rightarrow> quote_assign list \<Rightarrow> quote_row thrown" where
  "Quote_update q vals = to_row (fst (beforeSave (fold assign vals (row_values q, []))))"

text \<open>An entry of \<^verbatim>\<open>values\<close> that is \<^verbatim>\<open>undefined\<close> is no assignment.\<close>

definition if_defined :: "('a \<Rightarrow> quote_assign) \<Rightarrow> 'a option \<Rightarrow> quote_assign list" where
  "if_defined c v = (case v of None \<Rightarrow> [] | Some x \<Rightarrow> [c x])"

section \<open>Order routes\<close>

text \<open>
  Every route takes the time of the request, the database, the bearer credential and the
  request's parameters. A route that writes nothing before its last fallible step
  returns the error response or the new database with the payload. A route that can
  throw after it has written returns the database as the request leaves it together
  with the response. \<open>valid\<close> is \<^verbatim>\<open>validationResult(req).isEmpty()\<close>: the request
  validators are a library's, and the typed body already excludes what they exclude for
  the enumerations.
\<close>

type_synonym 'a outcome = "db \<times> (http_error + 'a)"

fun validTransitions :: "order_status \<Rightarrow> order_status list" where
  "validTransitions quote_asked = [quote_sent, cancelled]"
| "validTransitions quote_sent = [quote_validated, cancelled]"
| "validTransitions quote_validated = [in_production, cancelled]"
| "validTransitions in_production = [in_shipping, cancelled]"
| "validTransitions in_shipping = [delivered, cancelled]"
| "validTransitions delivered = []"
| "validTransitions cancelled = []"

record status_body =
  sb_status :: order_status
  sb_notes :: "string option"
  sb_trackingNumber :: "string option"
  sb_shippingCompany :: "string option"

text \<open>\<^verbatim>\<open>if (s)\<close> on an optional string: defined and not empty.\<close>

definition truthy :: "string option \<Rightarrow> bool" where
  "truthy s = (case s of None \<Rightarrow> False | Some v \<Rightarrow> v \<noteq> [])"

definition days :: "int \<Rightarrow> int" where
  "days n = n * 24 * 60 * 60 * 1000"

text \<open>The \<^verbatim>\<open>updateData\<close> of the status route, applied to the order.\<close>

definition status_updateData :: "date \<Rightarrow> status_body \<Rightarrow> order \<Rightarrow> order" where
  "status_updateData now body ord =
     (let o1 = ord\<lparr>o_status := sb_status body\<rparr>;
          o2 = (if truthy (sb_notes body) then o1\<lparr>o_notes := sb_notes body\<rparr> else o1);
          o3 = (if truthy (sb_trackingNumber body)
                then o2\<lparr>o_trackingNumber := sb_trackingNumber body\<rparr> else o2);
          o4 = (if truthy (sb_shippingCompany body)
                then o3\<lparr>o_shippingCompany := sb_shippingCompany body\<rparr> else o3)
      in if sb_status body = in_production then o4\<lparr>o_expectedDelivery := Some (now + days 14)\<rparr>
         else if sb_status body = delivered then o4\<lparr>o_actualDelivery := Some now\<rparr>
         else o4)"

text \<open>
  The handler of \<^verbatim>\<open>PUT /:id/status\<close>, from the point where \<^verbatim>\<open>req.order\<close> is bound:
  it writes the order, then creates the system notice, then answers.
\<close>

definition updateOrderStatus_handler ::
  "date \<Rightarrow> db \<Rightarrow> user \<Rightarrow> order \<Rightarrow> bool \<Rightarrow> status_body \<Rightarrow> order outcome" where
  "updateOrderStatus_handler now d u ord valid body =
     (if \<not> valid then (d, Inl (400, ''Validation failed''))
      else if sb_status body \<notin> set (validTransitions (o_status ord))
      then (d, Inl (400, ''Invalid status transition from '' @ status_label (o_status ord)
                         @ '' to '' @ status_label (sb_status body)))
      else
        let ord' = status_updateData now body ord;
            d1 = d\<lparr>db_orders := save_row o_id ord' (db_orders d)\<rparr>
        in (case ChatMessage_create
                   (system_message (db_next_id d) (o_id ord) u
                      (''Order status changed to: '' @ status_label (sb_status body))
                      ''status_changed'') of
              Throws \<Rightarrow> (d1, Inl (500, ''Failed to update order status''))
            | Returns m \<Rightarrow>
                (d1\<lparr>db_messages := db_messages d @ [m], db_next_id := db_next_id d + 1\<rparr>,
                 Inr ord')))"

record details_body =
  bd_title :: "string option"
  bd_description :: "string option"
  bd_patientName :: "string option"
  bd_patientAge :: "int option"
  bd_patientGender :: "gender option"
  bd_toothNumbers :: "int list option"
  bd_prosthesisType :: "prosthesis_type option"
  bd_material :: "order_material option"
  bd_color :: "string option"
  bd_urgency :: "order_urgency option"
  bd_expectedDelivery :: "date option"
  bd_notes :: "string option"

text \<open>\<^verbatim>\<open>if (req.body[field] !== undefined) updateData[field] = req.body[field]\<close>.\<close>

definition copy_field :: "'a option \<Rightarrow> ('a \<Rightarrow> order \<Rightarrow> order) \<Rightarrow> order \<Rightarrow> order" where
  "copy_field v f ord = (case v of None \<Rightarrow> ord | Some x \<Rightarrow> f x ord)"

definition details_updateData :: "details_body \<Rightarrow> order \<Rightarrow> order" where
  "details_updateData body =
     copy_field (bd_notes body) (\<lambda>x r. r\<lparr>o_notes := Some x\<rparr>) \<circ>
     copy_field (bd_expectedDelivery body) (\<lambda>x r. r\<lparr>o_expectedDelivery := Some x\<rparr>) \<circ>
     copy_field (bd_urgency body) (\<lambda>x r. r\<lparr>o_urgency := Some x\<rparr>) \<circ>
     copy_field (bd_color body) (\<lambda>x r. r\<lparr>o_color := Some x\<rparr>) \<circ>
     copy_field (bd_material body) (\<lambda>x r. r\<lparr>o_material := Some x\<rparr>) \<circ>
     copy_field (bd_prosthesisType body) (\<lambda>x r. r\<lparr>o_prosthesisType := Some x\<rparr>) \<circ>
     copy_field (bd_toothNumbers body) (\<lambda>x r. r\<lparr>o_toothNumbers := x\<rparr>) \<circ>
     copy_field (bd_patientGender body) (\<lambda>x r. r\<lparr>o_patientGender := Some x\<rparr>) \<circ>
     copy_field (bd_patientAge body) (\<lambda>x r. r\<lparr>o_patientAge := Some x\<rparr>) \<circ>
     copy_field (bd_patientName body) (\<lambda>x r. r\<lparr>o_patientName := Some x\<rparr>) \<circ>
     copy_field (bd_description body) (\<lambda>x r. r\<lparr>o_description := Some x\<rparr>) \<circ>
     copy_field (bd_title body) (\<lambda>x r. r\<lparr>o_title := x\<rparr>)"

text \<open>The handler of \<^verbatim>\<open>PUT /:id\<close>, from the point where \<^verbatim>\<open>req.order\<close> is bound.\<close>

definition updateOrderDetails_handler ::
  "db \<Rightarrow> order \<Rightarrow> bool \<Rightarrow> details_body \<Rightarrow> http_error + db \<times> order" where
  "updateOrderDetails_handler d ord valid body =
     (if \<not> valid then Inl (400, ''Validation failed'')
      else if o_status ord \<in> set [in_production, in_shipping, delivered]
      then Inl (400, ''Cannot update order that is in production or beyond'')
      else
        let ord' = details_updateData body ord
        in Inr (d\<lparr> db_orders := save_row o_id ord' (db_orders d) \<rparr>, ord'))"

text \<open>
  The three routes of the orders router that name their placeholder \<^verbatim>\<open>:id\<close>. Express puts
  the path segment into \<^verbatim>\<open>req.params.id\<close>; the middleware run in the order of the route's
  argument list.
\<close>

definition getOrderById :: "db \<Rightarrow> bearer \<Rightarrow> uuid \<Rightarrow> http_error + order option" where
  "getOrderById d tok i =
     (case authenticateToken (db_users d) tok of
        Inl e \<Rightarrow> Inl e
      | Inr u \<Rightarrow>
     (case canAccessOrder (db_orders d) [''id'' \<mapsto> i] u of
        Inl e \<Rightarrow> Inl e
      | Inr ord \<Rightarrow> Inr (findByPk o_id (db_orders d) ([''id'' \<mapsto> i] ''id''))))"

definition updateOrderStatus ::
  "date \<Rightarrow> db \<Rightarrow> bearer \<Rightarrow> uuid \<Rightarrow> bool \<Rightarrow> status_body \<Rightarrow> order outcome" where
  "updateOrderStatus now d tok i valid body =
     (case authenticateToken (db_users d) tok of
        Inl e \<Rightarrow> (d, Inl e)
      | Inr u \<Rightarrow>
     (case requireSupplierOrAdmin u of
        Inl e \<Rightarrow> (d, Inl e)
      | Inr _ \<Rightarrow>
     (case canAccessOrder (db_orders d) [''id'' \<mapsto> i] u of
        Inl e \<Rightarrow> (d, Inl e)
      | Inr ord \<Rightarrow> updateOrderStatus_handler now d u ord valid body)))"

definition updateOrderDetails ::
  "db \<Rightarrow> bearer \<Rightarrow> uuid \<Rightarrow> bool \<Rightarrow> details_body \<Rightarrow> http_error + db \<times> order" where
  "updateOrderDetails d tok i valid body =
     (case authenticateToken (db_users d) tok of
        Inl e \<Rightarrow> Inl e
      | Inr u \<Rightarrow>
     (case requireDentistOrAdmin u of
        Inl e \<Rightarrow> Inl e
      | Inr _ \<Rightarrow>
     (case canAccessOrder (db_orders d) [''id'' \<mapsto> i] u of
        Inl e \<Rightarrow> Inl e
      | Inr ord \<Rightarrow> updateOrderDetails_handler d ord valid body)))"

section \<open>Quote routes\<close>

record create_quote_body =
  cq_orderId :: uuid
  cq_basePrice :: rat
  cq_materialCost :: "rat option"
  cq_laborCost :: "rat option"
  cq_shippingCost :: "rat option"
  cq_taxAmount :: "rat option"
  cq_productionTime :: "int option"
  cq_shippingTime :: "int option"
  cq_notes :: "string option"

text \<open>\<^verbatim>\<open>x ? parseFloat(x) : 0\<close> on an optional decimal of the body.\<close>

definition cost_or_zero :: "rat option \<Rightarrow> rat" where
  "cost_or_zero x = (case x of None \<Rightarrow> 0 | Some v \<Rightarrow> v)"

text \<open>
  The \<^verbatim>\<open>quoteData\<close> of the create route; \<^verbatim>\<open>pricingFactor.factor\<close> is the number the
  rule's column holds.
\<close>

definition quoteData ::
  "date \<Rightarrow> order \<Rightarrow> create_quote_body \<Rightarrow> pricing_factor option \<Rightarrow> quote_data" where
  "quoteData now ord body pricingFactor =
     \<lparr> qd_orderId = cq_orderId body, qd_supplierId = o_supplierId ord,
       qd_basePrice = cq_basePrice body,
       qd_materialCost = cost_or_zero (cq_materialCost body),
       qd_laborCost = cost_or_zero (cq_laborCost body),
       qd_shippingCost = cost_or_zero (cq_shippingCost body),
       qd_taxAmount = cost_or_zero (cq_taxAmount body),
       qd_productionTime = cq_productionTime body,
       qd_shippingTime = cq_shippingTime body,
       qd_notes = cq_notes body,
       qd_pricingFactor =
         (case pricingFactor of None \<Rightarrow> 1 | Some f \<Rightarrow> decimal_value (pf_factor f)),
       qd_validUntil = now + days 30 \<rparr>"

text \<open>
  \<^verbatim>\<open>POST /quotes\<close>: after the checks, the rule lookup, \<^verbatim>\<open>Quote.create\<close>,
  \<^verbatim>\<open>order.update\<close> and \<^verbatim>\<open>ChatMessage.create\<close> run in this order, and a throw of any of
  them is answered with 500 \<^verbatim>\<open>Failed to create quote\<close>.
\<close>

definition createQuote ::
  "date \<Rightarrow> db \<Rightarrow> bearer \<Rightarrow> bool \<Rightarrow> create_quote_body \<Rightarrow> quote_row outcome" where
  "createQuote now d tok valid body =
     (case authenticateToken (db_users d) tok of
        Inl e \<Rightarrow> (d, Inl e)
      | Inr u \<Rightarrow>
     (case requireSupplierOrAdmin u of
        Inl e \<Rightarrow> (d, Inl e)
      | Inr _ \<Rightarrow>
     (if \<not> valid then (d, Inl (400, ''Validation failed''))
      else
     (case findByPk o_id (db_orders d) (Some (cq_orderId body)) of
        None \<Rightarrow> (d, Inl (404, ''Order not found''))
      | Some ord \<Rightarrow>
     (if u_role u = supplier \<and> o_supplierId ord \<noteq> u_id u
      then (d, Inl (403, ''Access denied to this order''))
      else if o_status ord \<noteq> quote_asked
      then (d, Inl (400, ''Cannot create quote for order in this status''))
      else
     (case getApplicableFactor (db_pricingFactors d) now
             \<lparr> od_supplierId = o_supplierId ord, od_category = o_prosthesisType ord,
               od_material = o_material ord, od_urgency = o_urgency ord,
               od_orderValue = cq_basePrice body \<rparr> of
        Throws \<Rightarrow> (d, Inl (500, ''Failed to create quote''))
      | Returns pricingFactor \<Rightarrow>
     (case Quote_create (db_next_id d) (quoteData now ord body pricingFactor) of
        Throws \<Rightarrow> (d, Inl (500, ''Failed to create quote''))
      | Returns quote \<Rightarrow>
          let ord' = ord\<lparr>o_status := quote_sent\<rparr>;
              d1 = d\<lparr> db_quotes := db_quotes d @ [quote],
                      db_orders := save_row o_id ord' (db_orders d),
                      db_next_id := db_next_id d + 1 \<rparr>
          in (case ChatMessage_create
                     (system_message (db_next_id d + 1) (o_id ord) u
                        (''Quote sent for '' @ o_title ord) ''quote_sent'') of
                Throws \<Rightarrow> (d1, Inl (500, ''Failed to create quote''))
              | Returns m \<Rightarrow>
                  (d1\<lparr>db_messages := db_messages d @ [m], db_next_id := db_next_id d + 2\<rparr>,
                   Inr quote)))))))))"



record update_quote_body =
  ub_basePrice :: "rat option"
  ub_materialCost :: "rat option"
  ub_laborCost :: "rat option"
  ub_shippingCost :: "rat option"
  ub_taxAmount :: "rat option"
  ub_productionTime :: "int option"
  ub_shippingTime :: "int option"
  ub_notes :: "string option"

definition update_quote_data :: "quote_row \<Rightarrow> update_quote_body \<Rightarrow> quote_assign list" where
  "update_quote_data quote body =
     if_defined Set_basePrice (ub_basePrice body) @
     if_defined Set_materialCost (ub_materialCost body) @
     if_defined Set_laborCost (ub_laborCost body) @
     if_defined Set_shippingCost (ub_shippingCost body) @
     if_defined Set_taxAmount (ub_taxAmount body) @
     if_defined Set_productionTime (ub_productionTime body) @
     if_defined Set_shippingTime (ub_shippingTime body) @
     if_defined Set_notes (ub_notes body) @
     [Set_revisionNumber (q_revisionNumber quote + 1), Set_status modified]"

text \<open>The decimal digits of a number, for the revision in the system message.\<close>

fun digits :: "nat \<Rightarrow> string" where
  "digits n = (if n < 10 then [char_of (48 + n)] else digits (n div 10) @ [char_of (48 + n mod 10)])"

definition show_int :: "int \<Rightarrow> string" where
  "show_int i = (if i < 0 then ''-'' @ digits (nat (- i)) else digits (nat i))"

text \<open>\<^verbatim>\<open>PUT /quotes/:id\<close>: \<^verbatim>\<open>quote.update\<close>, then \<^verbatim>\<open>ChatMessage.create\<close>.\<close>

definition updateQuote ::
  "db \<Rightarrow> bearer \<Rightarrow> uuid \<Rightarrow> bool \<Rightarrow> update_quote_body \<Rightarrow> quote_row outcome" where
  "updateQuote d tok i valid body =
     (case authenticateToken (db_users d) tok of
        Inl e \<Rightarrow> (d, Inl e)
      | Inr u \<Rightarrow>
     (case requireSupplierOrAdmin u of
        Inl e \<Rightarrow> (d, Inl e)
      | Inr _ \<Rightarrow>
     (if \<not> valid then (d, Inl (400, ''Validation failed''))
      else
     (case findByPk q_id (db_quotes d) (Some i) of
        None \<Rightarrow> (d, Inl (404, ''Quote not found''))
      | Some quote \<Rightarrow>
     (if u_role u = supplier \<and> q_supplierId quote \<noteq> u_id u
      then (d, Inl (403, ''Access denied to this quote''))
      else if q_status quote = accepted
      then (d, Inl (400, ''Cannot update accepted quote''))
      else
     (case Quote_update quote (update_quote_data quote body) of
        Throws \<Rightarrow> (d, Inl (500, ''Failed to update quote''))
      | Returns quote' \<Rightarrow>
          let d1 = d\<lparr>db_quotes := save_row q_id quote' (db_quotes d)\<rparr>
          in (case ChatMessage_create
                     (system_message (db_next_id d) (q_orderId quote) u
                        (''Quote updated (Revision '' @ show_int (q_revisionNumber quote + 1)
                         @ '')'')
                        ''quote_update'') of
                Throws \<Rightarrow> (d1, Inl (500, ''Failed to update quote''))
              | Returns m \<Rightarrow>
                  (d1\<lparr>db_messages := db_messages d @ [m], db_next_id := db_next_id d + 1\<rparr>,
                   Inr quote'))))))))"

text \<open>
  Accept and reject load the quote with its order (\<^verbatim>\<open>quote.order\<close>), which is null when
  the order is missing; the first read of one of its fields then throws. After the
  checks, \<^verbatim>\<open>quote.update\<close>, \<^verbatim>\<open>quote.order.update\<close> and \<^verbatim>\<open>ChatMessage.create\<close> run in
  this order.
\<close>

definition acceptQuote :: "date \<Rightarrow> db \<Rightarrow> bearer \<Rightarrow> uuid \<Rightarrow> quote_row outcome" where
  "acceptQuote now d tok i =
     (case authenticateToken (db_users d) tok of
        Inl e \<Rightarrow> (d, Inl e)
      | Inr u \<Rightarrow>
     (if u_role u \<noteq> dentist \<and> u_role u \<noteq> admin
      then (d, Inl (403, ''Only dentists can accept quotes''))
      else
     (case findByPk q_id (db_quotes d) (Some i) of
        None \<Rightarrow> (d, Inl (404, ''Quote not found''))
      | Some quote \<Rightarrow>
     (let order = findByPk o_id (db_orders d) (Some (q_orderId quote))
      in if u_role u = dentist \<and> order = None
         then (d, Inl (500, ''Failed to accept quote''))
         else if u_role u = dentist \<and> map_option o_dentistId order \<noteq> Some (u_id u)
         then (d, Inl (403, ''Access denied to this quote''))
         else if q_status quote \<noteq> sent \<and> q_status quote \<noteq> modified
         then (d, Inl (400, ''Only sent or modified quotes can be accepted''))
         else
     (case Quote_update quote
             [Set_status accepted, Set_acceptedAt now, Set_acceptedBy (u_id u)] of
        Throws \<Rightarrow> (d, Inl (500, ''Failed to accept quote''))
      | Returns quote' \<Rightarrow>
     (case order of
        None \<Rightarrow>
          (d\<lparr>db_quotes := save_row q_id quote' (db_quotes d)\<rparr>,
           Inl (500, ''Failed to accept quote''))
      | Some ord \<Rightarrow>
          let ord' = ord\<lparr> o_status := quote_validated,
                          o_originalQuote := q_totalPrice quote',
                          o_adjustedQuote := q_adjustedPrice quote',
                          o_pricingFactor := q_pricingFactor quote' \<rparr>;
              d1 = d\<lparr> db_quotes := save_row q_id quote' (db_quotes d),
                      db_orders := save_row o_id ord' (db_orders d) \<rparr>
          in (case ChatMessage_create
                     (system_message (db_next_id d) (q_orderId quote) u
                        (''Quote accepted for '' @ o_title ord) ''quote_accepted'') of
                Throws \<Rightarrow> (d1, Inl (500, ''Failed to accept quote''))
              | Returns m \<Rightarrow>
                  (d1\<lparr>db_messages := db_messages d @ [m], db_next_id := db_next_id d + 1\<rparr>,
                   Inr quote'))))))))"

definition rejectQuote ::
  "db \<Rightarrow> bearer \<Rightarrow> uuid \<Rightarrow> string option \<Rightarrow> quote_row outcome" where
  "rejectQuote d tok i rejectionReason =
     (case authenticateToken (db_users d) tok of
        Inl e \<Rightarrow> (d, Inl e)
      | Inr u \<Rightarrow>
     (if u_role u \<noteq> dentist \<and> u_role u \<noteq> admin
      then (d, Inl (403, ''Only dentists can reject quotes''))
      else
     (case findByPk q_id (db_quotes d) (Some i) of
        None \<Rightarrow> (d, Inl (404, ''Quote not found''))
      | Some quote \<Rightarrow>
     (let order = findByPk o_id (db_orders d) (Some (q_orderId quote))
      in if u_role u = dentist \<and> order = None
         then (d, Inl (500, ''Failed to reject quote''))
         else if u_role u = dentist \<and> map_option o_dentistId order \<noteq> Some (u_id u)
         then (d, Inl (403, ''Access denied to this quote''))
         else if q_status quote \<noteq> sent \<and> q_status quote \<noteq> modified
         then (d, Inl (400, ''Only sent or modified quotes can be rejected''))
         else
     (case Quote_update quote
             (Set_status rejected # if_defined Set_rejectionReason rejectionReason) of
        Throws \<Rightarrow> (d, Inl (500, ''Failed to reject quote''))
      | Returns quote' \<Rightarrow>
     (case order of
        None \<Rightarrow>
          (d\<lparr>db_quotes := save_row q_id quote' (db_quotes d)\<rparr>,
           Inl (500, ''Failed to reject quote''))
      | Some ord \<Rightarrow>
          let ord' = ord\<lparr>o_status := quote_asked\<rparr>;
              d1 = d\<lparr> db_quotes := save_row q_id quote' (db_quotes d),
                      db_orders := save_row o_id ord' (db_orders d) \<rparr>
          in (case ChatMessage_create
                     (system_message (db_next_id d) (q_orderId quote) u
                        (''Quote rejected for '' @ o_title ord) ''quote_rejected'') of
                Throws \<Rightarrow> (d1, Inl (500, ''Failed to reject quote''))
              | Returns m \<Rightarrow>
                  (d1\<lparr>db_messages := db_messages d @ [m], db_next_id := db_next_id d + 1\<rparr>,
                   Inr quote'))))))))"

section \<open>Message routes\<close>

text \<open>
  \<^verbatim>\<open>ChatMessage.update({isRead: true, readAt: new Date()}, {where: {orderId, userId: {ne:
  reader}, isRead: false}})\<close>: the rows the \<^verbatim>\<open>where\<close> selects are rewritten, the others
  are left as they are.
\<close>

definition mark_read :: "date \<Rightarrow> uuid \<Rightarrow> uuid \<Rightarrow> chat_message list \<Rightarrow> chat_message list" where
  "mark_read now orderId reader msgs =
     map (\<lambda>m. if m_orderId m = orderId \<and> m_userId m \<noteq> reader \<and> m_isRead m = False
              then m\<lparr>m_isRead := True, m_readAt := Some now\<rparr> else m) msgs"

definition markMessagesRead :: "date \<Rightarrow> db \<Rightarrow> bearer \<Rightarrow> uuid \<Rightarrow> http_error + db" where
  "markMessagesRead now d tok orderId =
     (case authenticateToken (db_users d) tok of
        Inl e \<Rightarrow> Inl e
      | Inr u \<Rightarrow>
     (case canAccessOrder (db_orders d) [''orderId'' \<mapsto> orderId] u of
        Inl e \<Rightarrow> Inl e
      | Inr _ \<Rightarrow>
          Inr (d\<lparr>db_messages := mark_read now orderId (u_id u) (db_messages d)\<rparr>)))"

definition deleteMessage :: "db \<Rightarrow> bearer \<Rightarrow> uuid \<Rightarrow> http_error + db" where
  "deleteMessage d tok messageId =
     (case authenticateToken (db_users d) tok of
        Inl e \<Rightarrow> Inl e
      | Inr u \<Rightarrow>
     (case findByPk m_id (db_messages d) (Some messageId) of
        None \<Rightarrow> Inl (404, ''Message not found'')
      | Some message \<Rightarrow>
          if m_userId message \<noteq> u_id u then Inl (403, ''Can only delete your own messages'')
          else if m_isSystemMessage message then Inl (400, ''Cannot delete system messages'')
          else Inr (d\<lparr>db_messages := filter (\<lambda>m. m_id m \<noteq> m_id message) (db_messages d)\<rparr>)))"

text \<open>The translation endpoint: a placeholder that stores the original text as the translation.\<close>

definition translateMessage :: "db \<Rightarrow> bearer \<Rightarrow> uuid \<Rightarrow> language \<Rightarrow> http_error + db" where
  "translateMessage d tok messageId targetLanguage =
     (case authenticateToken (db_users d) tok of
        Inl e \<Rightarrow> Inl e
      | Inr u \<Rightarrow>
     (case findByPk m_id (db_messages d) (Some messageId) of
        None \<Rightarrow> Inl (404, ''Message not found'')
      | Some message \<Rightarrow>
          Inr (d\<lparr>db_messages :=
                   save_row m_id
                     (message\<lparr> m_translatedMessage := Some (m_message message),
                               m_targetLanguage := Some targetLanguage,
                               m_translationStatus := ''completed'' \<rparr>)
                     (db_messages d)\<rparr>)))"

section \<open>The application as a transition system\<close>

text \<open>
  A request to one of the modelled routes, and the database it leaves: the one the route
  returns, which for a request refused before any write is the database as it was.
\<close>

datatype request =
  CreateQuote date bearer bool create_quote_body
  | UpdateQuote bearer uuid bool update_quote_body
  | AcceptQuote date bearer uuid
  | RejectQuote bearer uuid "string option"
  | GetOrderById bearer uuid
  | UpdateOrderStatus date bearer uuid bool status_body
  | UpdateOrderDetails bearer uuid bool details_body
  | MarkMessagesRead date bearer uuid
  | DeleteMessage bearer uuid
  | TranslateMessage bearer uuid language

definition new_db :: "db \<Rightarrow> http_error + db \<times> 'a \<Rightarrow> db" where
  "new_db d res = (case res of Inl _ \<Rightarrow> d | Inr r \<Rightarrow> fst r)"

fun respond :: "db \<Rightarrow> request \<Rightarrow> db" where
  "respond d (CreateQuote now tok valid body) = fst (createQuote now d tok valid body)"
| "respond d (UpdateQuote tok i valid body) = fst (updateQuote d tok i valid body)"
| "respond d (AcceptQuote now tok i) = fst (acceptQuote now d tok i)"
| "respond d (RejectQuote tok i reason) = fst (rejectQuote d tok i reason)"
| "respond d (GetOrderById tok i) = d"
| "respond d (UpdateOrderStatus now tok i valid body) =
     fst (updateOrderStatus now d tok i valid body)"
| "respond d (UpdateOrderDetails tok i valid body) =
     new_db d (updateOrderDetails d tok i valid body)"
| "respond d (MarkMessagesRead now tok orderId) =
     (case markMessagesRead now d tok orderId of Inl _ \<Rightarrow> d | Inr d' \<Rightarrow> d')"
| "respond d (DeleteMessage tok i) =
     (case deleteMessage d tok i of Inl _ \<Rightarrow> d | Inr d' \<Rightarrow> d')"
| "respond d (TranslateMessage tok i l) =
     (case translateMessage d tok i l of Inl _ \<Rightarrow> d | Inr d' \<Rightarrow> d')"

definition serve :: "db \<Rightarrow> request list \<Rightarrow> db" where
  "serve d reqs = fold (\<lambda>r x. respond x r) reqs d"




section \<open>Properties to verify\<close>

text \<open>
  The price invariant of a stored quote: the total is the sum of the five cost
  components, a missing one counting as zero, and the adjusted price is the total times
  the factor (a missing factor counting as 1, as in the hook), as the column holds it.
\<close>

definition hundredths_or_zero :: "decimal2 option \<Rightarrow> decimal2" where
  "hundredths_or_zero x = (case x of None \<Rightarrow> 0 | Some v \<Rightarrow> v)"

definition total_of :: "quote_row \<Rightarrow> decimal2" where
  "total_of q =
     q_basePrice q + hundredths_or_zero (q_materialCost q) + hundredths_or_zero (q_laborCost q)
     + hundredths_or_zero (q_shippingCost q) + hundredths_or_zero (q_taxAmount q)"

definition price_invariant :: "quote_row \<Rightarrow> bool" where
  "price_invariant q \<longleftrightarrow>
     q_totalPrice q = Some (total_of q) \<and>
     q_adjustedPrice q =
       Some (to_hundredths
               (decimal_value (total_of q)
                * (case q_pricingFactor q of None \<Rightarrow> 1 | Some f \<Rightarrow> decimal_value f)))"


text \<open>
  What marking an order read does to one message, \<open>m\<close> before and \<open>m'\<close> after: a message
  of that order written by someone other than the reader is read afterwards, with the
  time of the call as its read time unless it was read already; any other message is as
  it was.
\<close>

definition read_by_others ::
  "date \<Rightarrow> uuid \<Rightarrow> uuid \<Rightarrow> chat_message \<Rightarrow> chat_message \<Rightarrow> bool" where
  "read_by_others now orderId reader m m' \<longleftrightarrow>
     (if m_orderId m = orderId \<and> m_userId m \<noteq> reader
      then m_isRead m' \<and>
           m' = (if m_isRead m then m else m\<lparr>m_isRead := True, m_readAt := Some now\<rparr>)
      else m' = m)"

section \<open>Scenarios\<close>

text \<open>
  The platform of the end-to-end scenarios: an administrator, a dentist, the supplier
  assigned to the dentist's order and a second supplier; one order for a ceramic crown in
  status \<^verbatim>\<open>quote_asked\<close>; one pricing rule, the active default with factor 1.5.
\<close>

definition the_admin :: user where
  "the_admin = \<lparr> u_id = 1, u_role = admin, u_isActive = True, u_preferredLanguage = Some fr \<rparr>"

definition the_dentist :: user where
  "the_dentist = \<lparr> u_id = 2, u_role = dentist, u_isActive = True, u_preferredLanguage = Some fr \<rparr>"

definition the_supplier :: user where
  "the_supplier = \<lparr> u_id = 3, u_role = supplier, u_isActive = True, u_preferredLanguage = Some fr \<rparr>"

definition other_supplier :: user where
  "other_supplier = \<lparr> u_id = 4, u_role = supplier, u_isActive = True, u_preferredLanguage = Some en \<rparr>"

definition crown_order :: order where
  "crown_order =
     \<lparr> o_id = 100, o_dentistId = 2, o_supplierId = 3, o_status = quote_asked,
       o_title = ''Crown'', o_description = None, o_patientName = None, o_patientAge = None,
       o_patientGender = None, o_toothNumbers = [11], o_prosthesisType = Some pt_crown,
       o_material = Some om_ceramic, o_color = None, o_urgency = Some medium,
       o_expectedDelivery = None, o_actualDelivery = None, o_originalQuote = None,
       o_adjustedQuote = None, o_pricingFactor = Some 100, o_notes = None,
       o_trackingNumber = None, o_shippingCompany = None \<rparr>"

definition default_rule :: pricing_factor where
  "default_rule =
     \<lparr> pf_id = 50, pf_supplierId = None, pf_isDefault = True, pf_factor = 150,
       pf_validFrom = 0, pf_validUntil = None, pf_category = Some general_category,
       pf_material = Some general_material, pf_urgency = Some general_urgency,
       pf_minOrderValue = None, pf_maxOrderValue = None, pf_isActive = True,
       pf_createdAt = 0 \<rparr>"

definition platform :: db where
  "platform =
     \<lparr> db_users = [the_admin, the_dentist, the_supplier, other_supplier],
       db_orders = [crown_order], db_quotes = [], db_messages = [],
       db_pricingFactors = [default_rule], db_next_id = 200 \<rparr>"

definition base_100 :: create_quote_body where
  "base_100 =
     \<lparr> cq_orderId = 100, cq_basePrice = 100, cq_materialCost = None, cq_laborCost = None,
       cq_shippingCost = None, cq_taxAmount = None, cq_productionTime = None,
       cq_shippingTime = None, cq_notes = None \<rparr>"

definition no_changes :: update_quote_body where
  "no_changes =
     \<lparr> ub_basePrice = None, ub_materialCost = None, ub_laborCost = None,
       ub_shippingCost = None, ub_taxAmount = None, ub_productionTime = None,
       ub_shippingTime = None, ub_notes = None \<rparr>"

definition no_details :: details_body where
  "no_details =
     \<lparr> bd_title = None, bd_description = None, bd_patientName = None, bd_patientAge = None,
       bd_patientGender = None, bd_toothNumbers = None, bd_prosthesisType = None,
       bd_material = None, bd_color = None, bd_urgency = None, bd_expectedDelivery = None,
       bd_notes = None \<rparr>"

text \<open>
  Two rules of the assigned supplier for the resolver: one for crowns with factor 1.6,
  one general with factor 1.2.
\<close>

definition crown_rule :: pricing_factor where
  "crown_rule =
     \<lparr> pf_id = 51, pf_supplierId = Some 3, pf_isDefault = False, pf_factor = 160,
       pf_validFrom = 0, pf_validUntil = None, pf_category = Some crown,
       pf_material = Some general_material, pf_urgency = Some general_urgency,
       pf_minOrderValue = None, pf_maxOrderValue = None, pf_isActive = True,
       pf_createdAt = 10 \<rparr>"

definition general_rule :: pricing_factor where
  "general_rule =
     \<lparr> pf_id = 52, pf_supplierId = Some 3, pf_isDefault = False, pf_factor = 120,
       pf_validFrom = 0, pf_validUntil = None, pf_category = Some general_category,
       pf_material = Some general_material, pf_urgency = Some general_urgency,
       pf_minOrderValue = None, pf_maxOrderValue = None, pf_isActive = True,
       pf_createdAt = 20 \<rparr>"

definition crown_order_data :: order_data where
  "crown_order_data =
     \<lparr> od_supplierId = 3, od_category = Some pt_crown, od_material = Some om_ceramic,
       od_urgency = Some medium, od_orderValue = 100 \<rparr>"

definition to_status :: "order_status \<Rightarrow> status_body" where
  "to_status s =
     \<lparr> sb_status = s, sb_notes = None, sb_trackingNumber = None, sb_shippingCompany = None \<rparr>"

text \<open>A conversation on the crown order: one message of the dentist, one of the supplier.\<close>

definition chat :: "chat_message list" where
  "chat =
     [\<lparr> m_id = 300, m_orderId = 100, m_userId = 2, m_message = ''Bonjour'',
        m_originalLanguage = fr, m_translatedMessage = None, m_targetLanguage = None,
        m_messageType = ''text'', m_isRead = False, m_readAt = None,
        m_isSystemMessage = False, m_systemAction = None,
        m_translationStatus = ''pending'' \<rparr>,
      \<lparr> m_id = 301, m_orderId = 100, m_userId = 3, m_message = ''Hello'',
        m_originalLanguage = fr, m_translatedMessage = None, m_targetLanguage = None,
        m_messageType = ''text'', m_isRead = False, m_readAt = None,
        m_isSystemMessage = False, m_systemAction = None,
        m_translationStatus = ''pending'' \<rparr>]"

text \<open>
  A row of the \<^verbatim>\<open>quotes\<close> table for the crown order, in status \<^verbatim>\<open>sent\<close>: base price
  100.00, total 100.00, factor 1.50, adjusted price 150.00. And the platform holding it,
  with the order in \<^verbatim>\<open>quote_sent\<close>.
\<close>

definition sent_quote :: quote_row where
  "sent_quote =
     \<lparr> q_id = 200, q_orderId = 100, q_supplierId = 3, q_status = sent, q_basePrice = 10000,
       q_materialCost = Some 0, q_laborCost = Some 0, q_shippingCost = Some 0,
       q_taxAmount = Some 0, q_totalPrice = Some 10000, q_adjustedPrice = Some 15000,
       q_pricingFactor = Some 150, q_validUntil = Some 2592001000,
       q_productionTime = None, q_shippingTime = None, q_notes = None,
       q_revisionNumber = 1, q_acceptedAt = None, q_acceptedBy = None,
       q_rejectionReason = None \<rparr>"

definition quoted_platform :: db where
  "quoted_platform =
     platform\<lparr> db_orders := [crown_order\<lparr>o_status := quote_sent\<rparr>],
               db_quotes := [sent_quote], db_next_id := 201 \<rparr>"

section \<open>Verification\<close>

subsection \<open>Auxiliary facts\<close>

lemmas scenario_defs =
  platform_def the_admin_def the_dentist_def the_supplier_def other_supplier_def
  crown_order_def default_rule_def base_100_def no_changes_def no_details_def to_status_def
  quoted_platform_def sent_quote_def

lemmas auth_defs =
  findByPk_def requireRole_def requireAdmin_def requireDentistOrAdmin_def
  requireSupplierOrAdmin_def canAccessOrder_def

text \<open>Reading a column and writing the number back gives the column's value.\<close>

lemma round_half_away_of_int: "round_half_away (of_int k) = k"
  by (simp add: round_half_away_def) linarith

lemma to_hundredths_decimal_value: "to_hundredths (decimal_value c) = c"
  using round_half_away_of_int [of c] by (simp add: to_hundredths_def decimal_value_def)

lemma to_hundredths_of_int: "to_hundredths (of_int k) = k * 100"
  using round_half_away_of_int [of "k * 100"] by (simp add: to_hundredths_def)

lemma to_hundredths_numeral: "to_hundredths (numeral n) = numeral n * 100"
  using to_hundredths_of_int [of "numeral n"] by simp

lemma to_hundredths_zero: "to_hundredths 0 = 0"
  using to_hundredths_of_int [of 0] by simp

lemma decimal_value_eq_iff: "decimal_value c = x \<longleftrightarrow> of_int c = x * 100"
  by (auto simp: decimal_value_def)

lemmas quote_defs =
  createQuote_def quoteData_def updateQuote_def acceptQuote_def rejectQuote_def new_db_def Let_def
  getApplicableFactor_def literals_typed_def is_label_def category_labels_def
  material_labels_def urgency_labels_def findOne_def where_common_def in_values_def
  sorts_before_def Quote_create_def Quote_build_def validate_new_def Quote_update_def
  to_row_def storable_def fits_def fits_opt_def convert_def row_values_def
  to_hundredths_decimal_value to_hundredths_numeral to_hundredths_zero decimal_value_eq_iff
  update_quote_data_def if_defined_def
  beforeSave_def calculate_totalPrice_def calculate_adjustedPrice_def
  set_totalPrice_def set_adjustedPrice_def parseFloat_or_def cost_or_zero_def
  save_row_def system_message_def ChatMessage_create_def messageType_labels_def
  systemAction_labels_def days_def show_int_def

lemma findByPk_None [simp]: "findByPk pk rows None = None"
  by (simp add: findByPk_def)




subsection \<open>The routes that name their placeholder \<^verbatim>\<open>:id\<close>\<close>

lemma canAccessOrder_id_param:
  "canAccessOrder orders [''id'' \<mapsto> i] u = Inl (404, ''Order not found'')"
  by (simp add: canAccessOrder_def)

text \<open>
  C9, as stated, fails: a request to one of the three routes is not always answered with
  NotFound. The middleware before \<^verbatim>\<open>canAccessOrder\<close> answer first: a dentist asking
  \<^verbatim>\<open>PUT /:id/status\<close> for an existing order is refused by the role gate with status 403,
  and a request without a token is refused with status 401.
\<close>

theorem status_route_role_gate_first:
  "findByPk o_id (db_orders platform) (Some 100) = Some crown_order
   \<and> updateOrderStatus 1000 platform (TokenFor 2) 100 True (to_status quote_sent)
       = (platform, Inl (403, ''Access denied. Required role: supplier or admin''))
   \<and> getOrderById platform NoToken 100 = Inl (401, ''Access token required'')"
  by (simp add: updateOrderStatus_def getOrderById_def scenario_defs auth_defs)

text \<open>
  C9, amended: the three routes bind the order's identifier to \<^verbatim>\<open>:id\<close> while
  \<^verbatim>\<open>canAccessOrder\<close> reads \<^verbatim>\<open>req.params.orderId\<close>. So every request that passes
  authentication and the route's role gate (none on \<^verbatim>\<open>GET /:id\<close>, supplier or admin on
  \<^verbatim>\<open>PUT /:id/status\<close>, dentist or admin on \<^verbatim>\<open>PUT /:id\<close>) is answered by the middleware
  with 404 \<^verbatim>\<open>Order not found\<close>, whatever the database holds; a request stopped earlier
  gets that middleware's error. In no case does the handler run, and the status route
  leaves the database as it was.
\<close>

theorem id_routes_never_reach_handler:
  "getOrderById d tok i =
     (case authenticateToken (db_users d) tok of
        Inl e \<Rightarrow> Inl e | Inr u \<Rightarrow> Inl (404, ''Order not found''))
   \<and> updateOrderStatus now d tok i valid sbody =
     (d, case authenticateToken (db_users d) tok of
           Inl e \<Rightarrow> Inl e
         | Inr u \<Rightarrow> (case requireSupplierOrAdmin u of
                      Inl e \<Rightarrow> Inl e | Inr _ \<Rightarrow> Inl (404, ''Order not found'')))
   \<and> updateOrderDetails d tok i valid dbody =
     (case authenticateToken (db_users d) tok of
        Inl e \<Rightarrow> Inl e
      | Inr u \<Rightarrow> (case requireDentistOrAdmin u of
                   Inl e \<Rightarrow> Inl e | Inr _ \<Rightarrow> Inl (404, ''Order not found'')))"
  by (simp add: getOrderById_def updateOrderStatus_def updateOrderDetails_def
      canAccessOrder_id_param split: sum.splits)

theorem id_routes_never_reach_handler_witness:
  "findByPk o_id (db_orders platform) (Some 100) = Some crown_order
   \<and> getOrderById platform (TokenFor 3) 100 = Inl (404, ''Order not found'')
   \<and> updateOrderStatus 1000 platform (TokenFor 3) 100 True (to_status quote_sent)
       = (platform, Inl (404, ''Order not found''))
   \<and> updateOrderDetails platform (TokenFor 2) 100 True no_details
       = Inl (404, ''Order not found'')"
  using id_routes_never_reach_handler [of platform "TokenFor 3" 100 1000 True "to_status quote_sent" _]
        id_routes_never_reach_handler [of platform "TokenFor 2" 100 _ True _ no_details]
  by (simp add: scenario_defs auth_defs)

subsection \<open>Marking messages read\<close>

lemma mark_read_idem:
  "mark_read now' oid reader (mark_read now oid reader msgs) = mark_read now oid reader msgs"
  by (induction msgs) (auto simp: mark_read_def)

lemma mark_read_exactly:
  "list_all2 (read_by_others now oid reader) msgs (mark_read now oid reader msgs)"
  by (induction msgs) (auto simp: mark_read_def read_by_others_def)

lemma markMessagesRead_granted:
  assumes "authenticateToken (db_users d) tok = Inr u"
    and "canAccessOrder (db_orders d) [''orderId'' \<mapsto> oid] u = Inr ord"
  shows "markMessagesRead now d tok oid
           = Inr (d\<lparr>db_messages := mark_read now oid (u_id u) (db_messages d)\<rparr>)"
  using assms by (simp add: markMessagesRead_def)

lemma markMessagesRead_result:
  assumes "markMessagesRead now d tok oid = Inr d1"
  shows "\<exists>u. authenticateToken (db_users d) tok = Inr u
             \<and> d1 = d\<lparr>db_messages := mark_read now oid (u_id u) (db_messages d)\<rparr>"
  using assms by (auto simp: markMessagesRead_def split: sum.splits)

lemma markMessagesRead_again:
  assumes "markMessagesRead now d tok oid = Inr d1"
  shows "markMessagesRead now' d1 tok oid = Inr d1"
proof -
  from assms obtain u where
    u: "authenticateToken (db_users d) tok = Inr u" and
    acc: "\<exists>ord. canAccessOrder (db_orders d) [''orderId'' \<mapsto> oid] u = Inr ord" and
    d1: "d1 = d\<lparr>db_messages := mark_read now oid (u_id u) (db_messages d)\<rparr>"
    by (auto simp: markMessagesRead_def split: sum.splits)
  then show ?thesis
    by (auto simp: markMessagesRead_def mark_read_idem)
qed

text \<open>
  C8: marking an order read sets \<^verbatim>\<open>isRead\<close>, with the time of the call as \<^verbatim>\<open>readAt\<close>, on
  exactly the messages of that order written by someone other than the reader; a message
  read before keeps its read time and every other message is untouched. A second call,
  whenever it comes, changes nothing on the table of messages. The route does this to
  the messages of the database: for a user who may reach the order it answers with the
  database whose messages are marked for that user, every successful answer is of this
  form and changes nothing else, and the route answers a second request as it did the
  first and returns the database unchanged.
\<close>

theorem markRead_marks_others_and_is_idempotent:
  "list_all2 (read_by_others now orderId reader) msgs (mark_read now orderId reader msgs)
   \<and> mark_read now' orderId reader (mark_read now orderId reader msgs)
       = mark_read now orderId reader msgs
   \<and> (authenticateToken (db_users d) tok = Inr u
        \<and> canAccessOrder (db_orders d) [''orderId'' \<mapsto> orderId] u = Inr ord \<longrightarrow>
        markMessagesRead now d tok orderId
          = Inr (d\<lparr>db_messages := mark_read now orderId (u_id u) (db_messages d)\<rparr>))
   \<and> (markMessagesRead now d tok orderId = Inr d1 \<longrightarrow>
        (\<exists>v. authenticateToken (db_users d) tok = Inr v
             \<and> d1 = d\<lparr>db_messages := mark_read now orderId (u_id v) (db_messages d)\<rparr>)
        \<and> markMessagesRead now' d1 tok orderId = Inr d1)"
  using mark_read_exactly [of now orderId reader msgs] mark_read_idem [of now' orderId reader now msgs]
    markMessagesRead_granted [of d tok u orderId ord now]
    markMessagesRead_result [of now d tok orderId d1]
    markMessagesRead_again [of now d tok orderId d1 now']
  by blast

theorem markRead_witness:
  "map m_isRead chat = [False, False]
   \<and> markMessagesRead 5000 (platform\<lparr>db_messages := chat\<rparr>) (TokenFor 3) 100
      = Inr (platform\<lparr>db_messages := mark_read 5000 100 3 chat\<rparr>)
   \<and> map m_isRead (mark_read 5000 100 3 chat) = [True, False]
   \<and> map m_readAt (mark_read 5000 100 3 chat) = [Some 5000, None]
   \<and> map m_readAt (mark_read 6000 100 3 (mark_read 5000 100 3 chat)) = [Some 5000, None]
   \<and> markMessagesRead 6000
        (platform\<lparr>db_messages := mark_read 5000 100 3 chat\<rparr>) (TokenFor 3) 100
      = Inr (platform\<lparr>db_messages := mark_read 5000 100 3 chat\<rparr>)"
  using markRead_marks_others_and_is_idempotent
          [of 5000 100 3 chat 6000 "platform\<lparr>db_messages := chat\<rparr>" "TokenFor 3"
              the_supplier crown_order
              "platform\<lparr>db_messages := mark_read 5000 100 3 chat\<rparr>"]
  by (simp add: chat_def mark_read_def read_by_others_def markMessagesRead_def
      scenario_defs auth_defs)

subsection \<open>The production lock on order details\<close>






subsection \<open>The status workflow\<close>












subsection \<open>The pricing factor resolver\<close>


lemma first_row_mem: "first_row best rs \<in> set (best # rs)"
  by (induction rs arbitrary: best) auto

lemma first_row_category:
  "r \<in> set (best # rs) \<Longrightarrow>
   category_rank (pf_category r) \<le> category_rank (pf_category (first_row best rs))"
proof (induction rs arbitrary: best r)
  case Nil
  then show ?case by simp
next
  case (Cons x xs)
  define b where "b = (if sorts_before x best then x else best)"
  have step: "category_rank (pf_category best) \<le> category_rank (pf_category b)"
             "category_rank (pf_category x) \<le> category_rank (pf_category b)"
    by (auto simp: b_def sorts_before_def)
  have keep: "category_rank (pf_category b) \<le> category_rank (pf_category (first_row b xs))"
    using Cons.IH by simp
  have fr: "first_row best (x # xs) = first_row b xs" by (simp add: b_def)
  from Cons.prems consider "r = best" | "r = x" | "r \<in> set xs" by auto
  then show ?case
  proof cases
    case 1 with step keep fr show ?thesis by simp
  next
    case 2 with step keep fr show ?thesis by simp
  next
    case 3 then show ?thesis using Cons.IH [of r b] fr by simp
  qed
qed

lemma findOne_Some:
  "findOne wh rows = Some r \<Longrightarrow> r \<in> set rows \<and> wh r"
proof -
  assume a: "findOne wh rows = Some r"
  then obtain x xs where f: "filter wh rows = x # xs" and r: "r = first_row x xs"
    by (auto simp: findOne_def split: list.splits)
  have "r \<in> set (filter wh rows)" using f r first_row_mem [of x xs] by simp
  then show ?thesis by simp
qed

lemma findOne_None: "findOne wh rows = None \<longleftrightarrow> (\<forall>r\<in>set rows. \<not> wh r)"
proof (cases "filter wh rows")
  case Nil
  then show ?thesis by (simp add: findOne_def filter_empty_conv)
next
  case (Cons x xs)
  then have "x \<in> set (filter wh rows)" by simp
  then have "\<exists>r\<in>set rows. wh r" by auto
  with Cons show ?thesis by (simp add: findOne_def)
qed

lemma category_rank_general:
  "category_rank c \<ge> 7 \<Longrightarrow> c \<noteq> None \<Longrightarrow> c = Some general_category"
  by (cases c rule: category_rank.cases) auto

lemma where_common_category: "where_common now od r \<Longrightarrow> pf_category r \<noteq> None"
  by (auto simp: where_common_def in_values_def split: option.splits)

lemma findOne_prefers_general:
  assumes g: "g \<in> set rows" "wh g" "pf_category g = Some general_category"
    and wh: "\<And>r. wh r \<Longrightarrow> pf_category r \<noteq> None"
  shows "\<exists>r. findOne wh rows = Some r \<and> pf_category r = Some general_category"
proof -
  from g have "g \<in> set (filter wh rows)" by simp
  then obtain x xs where f: "filter wh rows = x # xs" by (cases "filter wh rows") auto
  let ?r = "first_row x xs"
  have res: "findOne wh rows = Some ?r" by (simp add: findOne_def f)
  have "g \<in> set (x # xs)" using \<open>g \<in> set (filter wh rows)\<close> f by simp
  then have "7 \<le> category_rank (pf_category ?r)"
    using first_row_category [of g x xs] g(3) by simp
  moreover have "pf_category ?r \<noteq> None" using findOne_Some [OF res] wh by blast
  ultimately show ?thesis using res category_rank_general by blast
qed

text \<open>
  What the sort does in general: whenever a rule of the supplier with category
  \<^verbatim>\<open>general\<close> matches, the rule returned has category \<^verbatim>\<open>general\<close>.
\<close>

lemma getApplicableFactor_prefers_general:
  assumes "literals_typed od"
    "g \<in> set rows" "pf_supplierId g = Some (od_supplierId od)" "where_common now od g"
    "pf_category g = Some general_category"
  shows "\<exists>r. getApplicableFactor rows now od = Returns (Some r)
             \<and> pf_category r = Some general_category"
proof -
  let ?wh = "\<lambda>r. pf_supplierId r = Some (od_supplierId od) \<and> where_common now od r"
  have "\<exists>r. findOne ?wh rows = Some r \<and> pf_category r = Some general_category"
    using assms where_common_category by (intro findOne_prefers_general [of g]) auto
  with assms(1) show ?thesis by (auto simp: getApplicableFactor_def)
qed

text \<open>For an order whose prosthesis type or material is \<^verbatim>\<open>other\<close> the lookup throws.\<close>

lemma getApplicableFactor_other:
  "od_category od = Some pt_other \<or> od_material od = Some om_other \<Longrightarrow>
   getApplicableFactor rows now od = Throws"
  by (auto simp: getApplicableFactor_def literals_typed_def is_label_def category_labels_def
      material_labels_def)

text \<open>
  C1 at its failing input. The assigned supplier has a rule for crowns and a general rule,
  both matching a crown order. The resolver sorts the matches by \<^verbatim>\<open>category DESC\<close>, and
  \<^verbatim>\<open>general\<close>, the last label of the enumeration, is the largest: it returns the general
  rule, whether that rule is the younger or the older one.
\<close>

theorem general_rule_beats_crown_rule:
  "getApplicableFactor [crown_rule, general_rule] 1000 crown_order_data
     = Returns (Some general_rule)
   \<and> getApplicableFactor [general_rule\<lparr>pf_createdAt := 5\<rparr>, crown_rule] 1000 crown_order_data
       = Returns (Some (general_rule\<lparr>pf_createdAt := 5\<rparr>))"
  by (simp add: quote_defs crown_rule_def general_rule_def crown_order_data_def)

subsection \<open>The price hooks\<close>

text \<open>Neither hook ever changes the instance: its guard asks \<^verbatim>\<open>changed\<close> about an array.\<close>

lemma beforeSave_id: "beforeSave inst = inst"
  by (simp add: beforeSave_def calculate_totalPrice_def calculate_adjustedPrice_def)

text \<open>So the instance the create route builds reaches the validation without a total.\<close>

lemma Quote_create_Throws: "Quote_create new_id data = Throws"
  by (simp add: Quote_create_def Quote_build_def validate_new_def Let_def)

lemma assign_keeps_prices:
  "q_totalPrice (fst (assign a inst)) = q_totalPrice (fst inst)
   \<and> q_adjustedPrice (fst (assign a inst)) = q_adjustedPrice (fst inst)
   \<and> q_pricingFactor (fst (assign a inst)) = q_pricingFactor (fst inst)"
  by (cases inst; cases a; simp)

lemma fold_assign_keeps_prices:
  "q_totalPrice (fst (fold assign vals inst)) = q_totalPrice (fst inst)
   \<and> q_adjustedPrice (fst (fold assign vals inst)) = q_adjustedPrice (fst inst)
   \<and> q_pricingFactor (fst (fold assign vals inst)) = q_pricingFactor (fst inst)"
  by (induction vals arbitrary: inst) (simp_all add: assign_keeps_prices)

text \<open>
  And no update recomputes anything: whatever a route assigns, the row written has the
  total, the adjusted price and the factor of the row that was read.
\<close>

lemma Quote_update_keeps_prices:
  assumes "Quote_update q vals = Returns q'"
  shows "q_totalPrice q' = q_totalPrice q \<and> q_adjustedPrice q' = q_adjustedPrice q
         \<and> q_pricingFactor q' = q_pricingFactor q"
proof -
  let ?v = "fst (fold assign vals (row_values q, []))"
  from assms have q': "q' = convert to_hundredths ?v"
    by (simp add: Quote_update_def beforeSave_id to_row_def split: if_splits)
  have v: "q_totalPrice ?v = map_option decimal_value (q_totalPrice q)"
    "q_adjustedPrice ?v = map_option decimal_value (q_adjustedPrice q)"
    "q_pricingFactor ?v = map_option decimal_value (q_pricingFactor q)"
    using fold_assign_keeps_prices [of vals "(row_values q, [])"]
    by (simp_all add: row_values_def convert_def)
  show ?thesis
    by (simp add: q' convert_def v option.map_comp comp_def to_hundredths_decimal_value
        option.map_ident)
qed

text \<open>The stored quote of the scenarios satisfies the price invariant.\<close>

lemma sent_quote_invariant: "price_invariant sent_quote"
  by code_simp

text \<open>
  C3 at its failing inputs. The hooks are the identity on every instance, so on the
  create path the instance has no total when it is validated and \<^verbatim>\<open>Quote.create\<close>
  throws, whatever the data. On the update path: the stored quote with base price
  100.00, total 100.00, factor 1.50 and adjusted price 150.00 satisfies the invariant;
  its supplier revises the base price to 120; the route stores the new base price and
  keeps total 100.00 and adjusted price 150.00 (and answers 500, the system notice
  failing after the write). The stored quote no longer satisfies the invariant.
\<close>

theorem price_hooks_never_run:
  "beforeSave inst = inst
   \<and> Quote_create new_id data = Throws
   \<and> price_invariant sent_quote
   \<and> updateQuote quoted_platform (TokenFor 3) 200 True (no_changes\<lparr>ub_basePrice := Some 120\<rparr>)
       = (quoted_platform
            \<lparr>db_quotes := [sent_quote\<lparr>q_status := modified, q_basePrice := 12000,
                                         q_revisionNumber := 2\<rparr>]\<rparr>,
          Inl (500, ''Failed to update quote''))
   \<and> map q_totalPrice
       (db_quotes (serve quoted_platform
          [UpdateQuote (TokenFor 3) 200 True (no_changes\<lparr>ub_basePrice := Some 120\<rparr>)]))
       = [Some 10000]
   \<and> map q_adjustedPrice
       (db_quotes (serve quoted_platform
          [UpdateQuote (TokenFor 3) 200 True (no_changes\<lparr>ub_basePrice := Some 120\<rparr>)]))
       = [Some 15000]
   \<and> \<not> price_invariant (sent_quote\<lparr>q_status := modified, q_basePrice := 12000,
                                      q_revisionNumber := 2\<rparr>)"
proof -
  have hooks: "beforeSave inst = inst" "Quote_create new_id data = Throws"
    by (simp_all add: beforeSave_id Quote_create_Throws)
  have before: "price_invariant sent_quote"
    by (rule sent_quote_invariant)
  have route:
    "updateQuote quoted_platform (TokenFor 3) 200 True (no_changes\<lparr>ub_basePrice := Some 120\<rparr>)
       = (quoted_platform
            \<lparr>db_quotes := [sent_quote\<lparr>q_status := modified, q_basePrice := 12000,
                                         q_revisionNumber := 2\<rparr>]\<rparr>,
          Inl (500, ''Failed to update quote''))"
    by (simp add: quote_defs scenario_defs auth_defs)
  have stored:
    "map q_totalPrice
       (db_quotes (serve quoted_platform
          [UpdateQuote (TokenFor 3) 200 True (no_changes\<lparr>ub_basePrice := Some 120\<rparr>)]))
       = [Some 10000]"
    "map q_adjustedPrice
       (db_quotes (serve quoted_platform
          [UpdateQuote (TokenFor 3) 200 True (no_changes\<lparr>ub_basePrice := Some 120\<rparr>)]))
       = [Some 15000]"
    by (simp_all add: serve_def route) (simp_all add: scenario_defs)
  have after:
    "\<not> price_invariant (sent_quote\<lparr>q_status := modified, q_basePrice := 12000,
                                      q_revisionNumber := 2\<rparr>)"
    by (simp add: price_invariant_def total_of_def hundredths_or_zero_def sent_quote_def)
  from hooks before route stored after show ?thesis by simp
qed

subsection \<open>Scenario A: creating a quote\<close>

text \<open>The create route never stores anything and never answers with a quote.\<close>

lemma createQuote_stores_nothing:
  "fst (createQuote now d tok valid body) = d \<and> isl (snd (createQuote now d tok valid body))"
  by (auto simp: createQuote_def Quote_create_Throws Let_def
      split: sum.splits option.splits thrown.splits)

text \<open>
  C5 at its failing input. On the platform of scenario A the assigned supplier posts a
  quote with base price 100 for the crown order. The lookup returns the default rule, the
  data handed to \<^verbatim>\<open>Quote.create\<close> carry factor 1.5 and a validity of 2592000000
  milliseconds (30 days) from the request, and then \<^verbatim>\<open>Quote.create\<close> throws: the route
  answers 500 \<^verbatim>\<open>Failed to create quote\<close>, no quote is stored and the order stays in
  \<^verbatim>\<open>quote_asked\<close>. This is so for every request to the route. A request for an order in
  another status is refused with 400, as the claim says.
\<close>

theorem scenario_A_stores_no_quote:
  "createQuote 1000 platform (TokenFor 3) True base_100
     = (platform, Inl (500, ''Failed to create quote''))
   \<and> db_quotes platform = []
   \<and> map o_status (db_orders platform) = [quote_asked]
   \<and> getApplicableFactor (db_pricingFactors platform) 1000 crown_order_data
       = Returns (Some default_rule)
   \<and> qd_pricingFactor (quoteData 1000 crown_order base_100 (Some default_rule)) = 3 / 2
   \<and> qd_validUntil (quoteData 1000 crown_order base_100 (Some default_rule))
       = 1000 + 2592000000
   \<and> Quote_create 200 (quoteData 1000 crown_order base_100 (Some default_rule)) = Throws
   \<and> fst (createQuote now d tok valid body) = d
   \<and> isl (snd (createQuote now d tok valid body))
   \<and> createQuote 1000 (platform\<lparr>db_orders := [crown_order\<lparr>o_status := quote_sent\<rparr>]\<rparr>)
        (TokenFor 3) True base_100
       = (platform\<lparr>db_orders := [crown_order\<lparr>o_status := quote_sent\<rparr>]\<rparr>,
          Inl (400, ''Cannot create quote for order in this status''))"
proof -
  have route:
    "createQuote 1000 platform (TokenFor 3) True base_100
       = (platform, Inl (500, ''Failed to create quote''))"
    "createQuote 1000 (platform\<lparr>db_orders := [crown_order\<lparr>o_status := quote_sent\<rparr>]\<rparr>)
        (TokenFor 3) True base_100
       = (platform\<lparr>db_orders := [crown_order\<lparr>o_status := quote_sent\<rparr>]\<rparr>,
          Inl (400, ''Cannot create quote for order in this status''))"
    by (simp_all add: quote_defs scenario_defs auth_defs)
  have state: "db_quotes platform = []" "map o_status (db_orders platform) = [quote_asked]"
    by (simp_all add: scenario_defs)
  have rule:
    "getApplicableFactor (db_pricingFactors platform) 1000 crown_order_data
       = Returns (Some default_rule)"
    by (simp add: crown_order_data_def quote_defs scenario_defs)
  have data:
    "qd_pricingFactor (quoteData 1000 crown_order base_100 (Some default_rule)) = 3 / 2"
    "qd_validUntil (quoteData 1000 crown_order base_100 (Some default_rule))
       = 1000 + 2592000000"
    by (simp_all add: quoteData_def days_def decimal_value_def default_rule_def)
  have throws:
    "Quote_create 200 (quoteData 1000 crown_order base_100 (Some default_rule)) = Throws"
    by (rule Quote_create_Throws)
  have always:
    "fst (createQuote now d tok valid body) = d"
    "isl (snd (createQuote now d tok valid body))"
    using createQuote_stores_nothing [of now d tok valid body] by simp_all
  from route state rule data throws always show ?thesis by simp
qed

subsection \<open>Scenario B: accepting the quote of scenario A\<close>

text \<open>
  C4 at its failing input. The create request of scenario A stores nothing, so there is
  no quote for the dentist to accept: the accept request, whatever identifier it names,
  is answered 404 \<^verbatim>\<open>Quote not found\<close>, and the order stays in \<^verbatim>\<open>quote_asked\<close> with its
  adjusted quote empty. And where a sent quote is stored, the accept of the order's
  dentist writes the quote (accepted, stamped) and the order (\<^verbatim>\<open>quote_validated\<close>,
  original quote 100.00, adjusted quote 150.00, factor 1.50) and then answers 500
  \<^verbatim>\<open>Failed to accept quote\<close>, the system notice failing after the writes.
\<close>

theorem scenario_B_finds_no_quote:
  "serve platform [CreateQuote 1000 (TokenFor 3) True base_100] = platform
   \<and> acceptQuote 2000 (serve platform [CreateQuote 1000 (TokenFor 3) True base_100])
        (TokenFor 2) 200
       = (platform, Inl (404, ''Quote not found''))
   \<and> map o_status
       (db_orders (serve platform [CreateQuote 1000 (TokenFor 3) True base_100,
                                   AcceptQuote 2000 (TokenFor 2) 200]))
       = [quote_asked]
   \<and> map o_adjustedQuote
       (db_orders (serve platform [CreateQuote 1000 (TokenFor 3) True base_100,
                                   AcceptQuote 2000 (TokenFor 2) 200]))
       = [None]
   \<and> acceptQuote 2000 quoted_platform (TokenFor 2) 200
       = (quoted_platform
            \<lparr>db_quotes := [sent_quote\<lparr>q_status := accepted, q_acceptedAt := Some 2000,
                                         q_acceptedBy := Some 2\<rparr>],
             db_orders := [crown_order\<lparr>o_status := quote_validated,
                                          o_originalQuote := Some 10000,
                                          o_adjustedQuote := Some 15000,
                                          o_pricingFactor := Some 150\<rparr>]\<rparr>,
          Inl (500, ''Failed to accept quote''))"
  by (simp add: serve_def quote_defs scenario_defs auth_defs)

subsection \<open>A created quote is a draft\<close>

text \<open>
  A stored quote in status \<^verbatim>\<open>draft\<close> cannot be decided: for the order's dentist and for
  the administrator, accept and reject answer 400 and write nothing.
\<close>

lemma draft_not_decidable:
  assumes "authenticateToken (db_users d) tok = Inr u"
    and "findByPk q_id (db_quotes d) (Some i) = Some q" and "q_status q = draft"
    and "findByPk o_id (db_orders d) (Some (q_orderId q)) = Some ord"
    and "u_role u = admin \<or> (u_role u = dentist \<and> o_dentistId ord = u_id u)"
  shows "acceptQuote now d tok i
           = (d, Inl (400, ''Only sent or modified quotes can be accepted''))"
    and "rejectQuote d tok i reason
           = (d, Inl (400, ''Only sent or modified quotes can be rejected''))"
  using assms by (auto simp: acceptQuote_def rejectQuote_def Let_def)

text \<open>
  C10 at its failing input. The create request of scenario A stores no quote, in status
  \<^verbatim>\<open>draft\<close> or any other, and the order does not go to \<^verbatim>\<open>quote_sent\<close>: it stays in
  \<^verbatim>\<open>quote_asked\<close>. Accept, reject and update of the quote the request would have made
  are answered 404 \<^verbatim>\<open>Quote not found\<close>, not with the error about sent or modified
  quotes. That error is what a stored draft gets: shown on the platform holding the
  quote as a draft.
\<close>

theorem create_route_stores_no_draft:
  "db_quotes (serve platform [CreateQuote 1000 (TokenFor 3) True base_100]) = []
   \<and> map o_status (db_orders (serve platform [CreateQuote 1000 (TokenFor 3) True base_100]))
       = [quote_asked]
   \<and> rejectQuote (serve platform [CreateQuote 1000 (TokenFor 3) True base_100])
        (TokenFor 2) 200 None
       = (platform, Inl (404, ''Quote not found''))
   \<and> acceptQuote 2000 (serve platform [CreateQuote 1000 (TokenFor 3) True base_100])
        (TokenFor 1) 200
       = (platform, Inl (404, ''Quote not found''))
   \<and> updateQuote (serve platform [CreateQuote 1000 (TokenFor 3) True base_100])
        (TokenFor 3) 200 True no_changes
       = (platform, Inl (404, ''Quote not found''))
   \<and> acceptQuote 2000 (quoted_platform\<lparr>db_quotes := [sent_quote\<lparr>q_status := draft\<rparr>]\<rparr>)
        (TokenFor 2) 200
       = (quoted_platform\<lparr>db_quotes := [sent_quote\<lparr>q_status := draft\<rparr>]\<rparr>,
          Inl (400, ''Only sent or modified quotes can be accepted''))
   \<and> rejectQuote (quoted_platform\<lparr>db_quotes := [sent_quote\<lparr>q_status := draft\<rparr>]\<rparr>)
        (TokenFor 2) 200 None
       = (quoted_platform\<lparr>db_quotes := [sent_quote\<lparr>q_status := draft\<rparr>]\<rparr>,
          Inl (400, ''Only sent or modified quotes can be rejected''))"
  by (simp add: serve_def quote_defs scenario_defs auth_defs)

subsection \<open>Access to an order\<close>







end
